theory Spec2Isabelle
  imports Complex_Main "HOL-Library.Multiset"
begin

section \<open>Conventions of the embedding\<close>

text \<open>
  The repository is a collection of valuation scripts for medical-aesthetics clinics:
  a Python command-line DCF model (\<open>summit_pe.txt\<close>), a Python earnings-power-value
  application (\<open>unnamed/part_001\<close>) and several TypeScript/JavaScript calibration
  scripts.  Numbers of either language are IEEE doubles in the source; here they are
  idealised as \<^typ>\<open>real\<close>, so rounding and overflow are outside the model, and so are
  parameters that are infinite or NaN.  Where the source itself produces a NaN or an
  infinity from finite parameters, the model has it: a value that is a number or NaN is a
  \<^typ>\<open>real option\<close> with \<open>None\<close> for NaN, and the values computed from financial
  statements, which can also be infinite, are of the type \<open>double\<close> defined with the
  earnings-power-value application.  Python exceptions are values of \<open>py_error\<close> on
  the left of a sum.
\<close>

datatype py_error = ZeroDivisionError | IndexError | TypeError | KeyError | ValueError

section \<open>Real-time market data (\<open>realtime_market_data.ts\<close>)\<close>

datatype MarketDataSource = fred | yahoo_finance | pitchbook | internal

text \<open>A JavaScript \<open>Date\<close>, as milliseconds since the epoch.\<close>

type_synonym Date = int

record RateQuote =
  rate_value :: real
  rate_source :: MarketDataSource
  rate_asOf :: Date

record MedispaMultiples =
  ms_ebitdaMultiple :: real
  ms_revenueMultiple :: real
  ms_sampleSize :: real

record HealthcareMultiples =
  hc_ebitdaMultiple :: real
  hc_revenueMultiple :: real

record IndustryMultiples =
  medispa :: MedispaMultiples
  healthcare :: HealthcareMultiples
  im_asOf :: Date

record EconomicIndicators =
  unemployment :: real
  consumerConfidence :: real
  disposableIncome :: real
  inflationRate :: real
  ei_asOf :: Date

record MedispaDeals =
  deal_count :: real
  avgMultiple :: real
  medianMultiple :: real
  totalValue :: real

record TransactionActivity =
  medispaDeals :: MedispaDeals
  lastQuarter :: Date

record RealTimeMarketData =
  lastUpdated :: Date
  riskFreeRate :: RateQuote
  marketRiskPremium :: RateQuote
  industryMultiples :: IndustryMultiples
  economicIndicators :: EconomicIndicators
  transactionActivity :: TransactionActivity

datatype size_class = small | medium | large

text \<open>
  \<open>marketData || RealTimeMarketDataService.getInstance().getCurrentData()\<close>: the optional
  argument, or else the snapshot the singleton service currently holds.  The snapshot is
  a parameter \<open>current\<close> of every function that reads it.
\<close>

definition market_data_or_current ::
  "RealTimeMarketData \<Rightarrow> RealTimeMarketData option \<Rightarrow> RealTimeMarketData" where
  "market_data_or_current current marketData =
     (case marketData of Some d \<Rightarrow> d | None \<Rightarrow> current)"

definition getRealTimeWACC ::
  "RealTimeMarketData \<Rightarrow> size_class \<Rightarrow> RealTimeMarketData option \<Rightarrow> real" where
  "getRealTimeWACC current sz marketData =
     (let d = market_data_or_current current marketData;
          baseWACC = rate_value (riskFreeRate d) + rate_value (marketRiskPremium d);
          sizePremium =
            (case sz of
               small \<Rightarrow> 0.025 + (if unemployment (economicIndicators d) > 0.05 then 0.005 else 0)
             | medium \<Rightarrow> 0.015
             | large \<Rightarrow> 0.005);
          economicAdjustment =
            (if unemployment (economicIndicators d) > 0.06 then 0.01
             else if consumerConfidence (economicIndicators d) < 90 then 0.005 else 0)
      in max 0.08 (min 0.18 (baseWACC + sizePremium + economicAdjustment)))"



section \<open>Calibrated multiples of the validation scripts\<close>

subsection \<open>\<open>calculateEnhancedMultiple\<close> (\<open>unnamed/part_002\<close>)\<close>















subsection \<open>\<open>getMarketCalibratedMultiple\<close> (\<open>unnamed/part_005\<close>)\<close>



text \<open>The object handed to the calibration functions; \<open>location\<close> may be absent.\<close>

record ModelInput =
  mi_revenue :: real
  mi_ebitda :: real
  mi_ebitdaMargin :: real
  mi_location :: "string option"




section \<open>Earnings power value (\<open>unnamed/part_001\<close>)\<close>

subsection \<open>Doubles that may be infinite or NaN\<close>

text \<open>
  A cell of a financial statement, and every number computed from the statements, is a
  \<open>double\<close>: a real number, an infinity or NaN.  The operations are those of IEEE
  arithmetic, exact on the reals.
\<close>

datatype double = Num real | PosInf | NegInf | NaN

fun dneg :: "double \<Rightarrow> double" where
  "dneg (Num x) = Num (- x)"
| "dneg PosInf = NegInf"
| "dneg NegInf = PosInf"
| "dneg NaN = NaN"

fun dabs :: "double \<Rightarrow> double" where
  "dabs (Num x) = Num \<bar>x\<bar>"
| "dabs PosInf = PosInf"
| "dabs NegInf = PosInf"
| "dabs NaN = NaN"

fun dadd :: "double \<Rightarrow> double \<Rightarrow> double" where
  "dadd (Num x) (Num y) = Num (x + y)"
| "dadd (Num x) PosInf = PosInf"
| "dadd (Num x) NegInf = NegInf"
| "dadd PosInf (Num y) = PosInf"
| "dadd PosInf PosInf = PosInf"
| "dadd PosInf NegInf = NaN"
| "dadd NegInf (Num y) = NegInf"
| "dadd NegInf PosInf = NaN"
| "dadd NegInf NegInf = NegInf"
| "dadd NaN b = NaN"
| "dadd a NaN = NaN"

definition dsub :: "double \<Rightarrow> double \<Rightarrow> double" where
  "dsub a b = dadd a (dneg b)"

fun dmul :: "double \<Rightarrow> double \<Rightarrow> double" where
  "dmul (Num x) (Num y) = Num (x * y)"
| "dmul (Num x) PosInf = (if x > 0 then PosInf else if x < 0 then NegInf else NaN)"
| "dmul (Num x) NegInf = (if x > 0 then NegInf else if x < 0 then PosInf else NaN)"
| "dmul PosInf (Num y) = (if y > 0 then PosInf else if y < 0 then NegInf else NaN)"
| "dmul NegInf (Num y) = (if y > 0 then NegInf else if y < 0 then PosInf else NaN)"
| "dmul PosInf PosInf = PosInf"
| "dmul PosInf NegInf = NegInf"
| "dmul NegInf PosInf = NegInf"
| "dmul NegInf NegInf = PosInf"
| "dmul NaN b = NaN"
| "dmul a NaN = NaN"

text \<open>
  Division as numpy and pandas perform it, where a zero divisor gives an infinity or NaN.
  Python's own \<open>/\<close> raises for a zero divisor; the model uses \<open>ddiv\<close> for it only where
  the source has made sure that the divisor is positive.
\<close>

fun ddiv :: "double \<Rightarrow> double \<Rightarrow> double" where
  "ddiv (Num x) (Num y) =
     (if y \<noteq> 0 then Num (x / y) else if x > 0 then PosInf else if x < 0 then NegInf else NaN)"
| "ddiv (Num x) PosInf = Num 0"
| "ddiv (Num x) NegInf = Num 0"
| "ddiv PosInf (Num y) = (if y \<ge> 0 then PosInf else NegInf)"
| "ddiv NegInf (Num y) = (if y \<ge> 0 then NegInf else PosInf)"
| "ddiv PosInf PosInf = NaN"
| "ddiv PosInf NegInf = NaN"
| "ddiv NegInf PosInf = NaN"
| "ddiv NegInf NegInf = NaN"
| "ddiv NaN b = NaN"
| "ddiv a NaN = NaN"

text \<open>The comparisons \<open><\<close> and \<open><=\<close>; both are false when an operand is NaN.\<close>

fun dless :: "double \<Rightarrow> double \<Rightarrow> bool" where
  "dless (Num x) (Num y) = (x < y)"
| "dless (Num x) PosInf = True"
| "dless (Num x) NegInf = False"
| "dless PosInf b = False"
| "dless NegInf (Num y) = True"
| "dless NegInf PosInf = True"
| "dless NegInf NegInf = False"
| "dless NaN b = False"
| "dless a NaN = False"

fun dle :: "double \<Rightarrow> double \<Rightarrow> bool" where
  "dle (Num x) (Num y) = (x \<le> y)"
| "dle (Num x) PosInf = True"
| "dle (Num x) NegInf = False"
| "dle PosInf (Num y) = False"
| "dle PosInf PosInf = True"
| "dle PosInf NegInf = False"
| "dle NegInf (Num y) = True"
| "dle NegInf PosInf = True"
| "dle NegInf NegInf = True"
| "dle NaN b = False"
| "dle a NaN = False"

text \<open>
  Python's \<open>max(a, b)\<close> keeps \<open>a\<close> unless \<open>b > a\<close>, and \<open>min(a, b)\<close> keeps \<open>a\<close> unless
  \<open>b < a\<close>; so \<open>max(0.0, nan)\<close> is \<open>0.0\<close>.
\<close>

definition py_max :: "double \<Rightarrow> double \<Rightarrow> double" where
  "py_max a b = (if dless a b then b else a)"

subsection \<open>Inputs, outputs and the statement data\<close>

record EPVInputs =
  years :: int
  margin_method :: string
  normalized_margin :: "real option"
  tax_rate :: real
  rf_rate :: real
  mrp :: real
  beta :: real
  cost_of_debt :: real
  use_capm :: bool
  equity_weight :: real
  maintenance_method :: string
  maint_factor :: real
  capital_intensity_years :: int
  excess_cash_pct :: real
  rd_capitalize :: bool
  rd_years :: int
  sga_capitalize :: bool
  sga_years :: int
  other_adjustments :: real
  use_manual_shares :: bool
  manual_shares :: "real option"
  use_manual_price :: bool
  manual_price :: "real option"
  wacc_override :: "real option"

text \<open>
  \<open>EPVOutputs\<close>.  The WACC, the excess cash, the debt and the other adjustments are
  computed from the inputs and the scalars of \<open>fin\<close> alone and are real numbers; the share
  count and the price are a real number or NaN (\<open>None\<close>); every other field depends on
  the statements and is a \<open>double\<close>.
\<close>

record EPVOutputs =
  out_normalized_revenue :: double
  out_normalized_margin :: double
  out_normalized_ebit :: double
  out_normalized_da :: double
  out_maintenance_capex :: double
  out_epo_after_tax :: double
  out_wacc :: real
  out_value_operations :: double
  out_cash_adjusted :: real
  out_non_operating_assets :: double
  out_debt :: real
  out_other_adjustments :: real
  out_equity_value :: double
  out_shares :: "real option"
  out_value_per_share :: double
  out_price :: "real option"
  out_upside :: double

text \<open>
  A pandas data frame of a financial statement, as yfinance delivers it: one column per
  reporting date (a timestamp) and one row per line item.  \<open>fr_columns\<close> holds the
  calendar years of the column dates in the order of the columns, which is all that
  \<open>compute_epv\<close> reads of a date; \<open>fr_rows\<close> holds the line items by name (the
  names are distinct), each with one cell per column.  The frame is empty when it has no
  column or no row.
\<close>

record frame =
  fr_columns :: "int list"
  fr_rows :: "(string \<times> double list) list"

definition frame_empty :: "frame \<Rightarrow> bool" where
  "frame_empty df = (fr_columns df = [] \<or> fr_rows df = [])"

text \<open>A pandas series: the labels (years) with their values, in order.\<close>

type_synonym series = "(int \<times> double) list"

text \<open>
  The dictionary \<open>fin\<close>: the three statements and the scalars that \<open>compute_epv\<close> reads
  with \<open>fin.get\<close>.  A scalar is \<open>None\<close> when the key is missing or holds \<open>None\<close>; for the
  share count and the price \<open>None\<close> also stands for NaN, which \<open>fin.get(k) or np.nan\<close>
  turns a missing value into.
\<close>

record Financials =
  fin_income :: frame
  fin_balance :: frame
  fin_cashflow :: frame
  fin_cash :: "real option"
  fin_total_debt :: "real option"
  fin_shares :: "real option"
  fin_price :: "real option"

subsection \<open>Helpers\<close>

text \<open>\<open>np.clip(x, lo, hi)\<close> is \<open>minimum(maximum(x, lo), hi)\<close>.\<close>

definition np_clip :: "real \<Rightarrow> real \<Rightarrow> real \<Rightarrow> real" where
  "np_clip x lo hi = min (max x lo) hi"

text \<open>\<open>x or 0.0\<close> for an optional scalar: a missing value and zero both give zero.\<close>

definition or_zero :: "real option \<Rightarrow> real" where
  "or_zero x = (case x of None \<Rightarrow> 0 | Some v \<Rightarrow> v)"

text \<open>\<open>get_line\<close>: the row of the first name that the index of the frame contains.\<close>

fun first_line :: "(string \<times> double list) list \<Rightarrow> string list \<Rightarrow> double list option" where
  "first_line rws [] = None"
| "first_line rws (n # ns) =
     (case map_of rws n of Some cells \<Rightarrow> Some cells | None \<Rightarrow> first_line rws ns)"

definition get_line :: "frame \<Rightarrow> string list \<Rightarrow> series option" where
  "get_line df names =
     (if frame_empty df then None
      else map_option (zip (fr_columns df)) (first_line (fr_rows df) names))"

text \<open>\<open>Series.tail(n)\<close>: the last \<open>n\<close> rows, or all but the first \<open>-n\<close> rows for negative \<open>n\<close>.\<close>

definition pd_tail :: "int \<Rightarrow> 'a list \<Rightarrow> 'a list" where
  "pd_tail n xs = (if n \<ge> 0 then drop (length xs - nat n) xs else drop (nat (- n)) xs)"

text \<open>\<open>Series.dropna()\<close>, on a series and on its values.\<close>

definition dropna :: "double list \<Rightarrow> double list" where
  "dropna xs = filter (\<lambda>v. v \<noteq> NaN) xs"

definition dropna_series :: "series \<Rightarrow> series" where
  "dropna_series s = filter (\<lambda>p. snd p \<noteq> NaN) s"

text \<open>
  \<open>series_to_yearly\<close>: the labels become years, and \<open>groupby(year).last()\<close> keeps for each
  year, in ascending order of the years, the last value of the year that is not NaN (NaN
  when the year has none).
\<close>

definition last_valid :: "double list \<Rightarrow> double" where
  "last_valid xs = (if dropna xs = [] then NaN else last (dropna xs))"

definition series_to_yearly :: "series \<Rightarrow> series" where
  "series_to_yearly s =
     map (\<lambda>y. (y, last_valid (map snd (filter (\<lambda>p. fst p = y) s))))
       (sort (remdups (map fst s)))"

text \<open>Sorting of values that are not NaN, ascending.\<close>

fun dinsert :: "double \<Rightarrow> double list \<Rightarrow> double list" where
  "dinsert x [] = [x]"
| "dinsert x (y # ys) = (if dless y x then y # dinsert x ys else x # y # ys)"

definition dsort :: "double list \<Rightarrow> double list" where
  "dsort xs = foldr dinsert xs []"

text \<open>
  \<open>mean()\<close> and \<open>median()\<close> of pandas skip NaN and give NaN when nothing is left.  The
  median of an even number of values is the mean of the two in the middle.
\<close>

definition mean_of :: "double list \<Rightarrow> double" where
  "mean_of vs = ddiv (foldl dadd (Num 0) vs) (Num (real (length vs)))"

definition pd_mean :: "double list \<Rightarrow> double" where
  "pd_mean xs = (if dropna xs = [] then NaN else mean_of (dropna xs))"

definition pd_median :: "double list \<Rightarrow> double" where
  "pd_median xs =
     (let s = dsort (dropna xs); n = length s
      in if n = 0 then NaN
         else if odd n then s ! (n div 2)
         else ddiv (dadd (s ! (n div 2 - 1)) (s ! (n div 2))) (Num 2))"

text \<open>\<open>safe_avg(series, years, method="median")\<close>, as \<open>estimate_maintenance_capex\<close> calls it.\<close>

definition safe_avg_median :: "series \<Rightarrow> int \<Rightarrow> double" where
  "safe_avg_median s yrs =
     (if s = [] then NaN
      else if dropna_series s = [] then NaN
      else pd_median (map snd (pd_tail yrs (dropna_series s))))"

text \<open>The names under which the application looks the line items up.\<close>

definition capex_names :: "string list" where
  "capex_names = [''Capital Expenditures'', ''CapitalExpenditures'']"

definition da_names :: "string list" where
  "da_names = [''Depreciation'', ''Depreciation And Amortization'']"

definition revenue_names :: "string list" where
  "revenue_names = [''Total Revenue'', ''Revenue'', ''TotalRevenue'']"

definition ebit_names :: "string list" where
  "ebit_names = [''Ebit'', ''EBIT'', ''Operating Income'', ''OperatingIncome'']"

definition ppe_names :: "string list" where
  "ppe_names = [''Property Plant Equipment Net'', ''Net Property Plant And Equipment'',
                ''Property Plant And Equipment'']"

definition rd_names :: "string list" where
  "rd_names = [''Research Development'', ''Research And Development'']"

definition sga_names :: "string list" where
  "sga_names = [''Selling General Administrative'', ''Selling General And Administrative'',
                ''Selling General And Administration'']"

definition lti_names :: "string list" where
  "lti_names = [''Long Term Investments'', ''Long Term Marketable Securities'']"

text \<open>
  \<open>a.index.intersection(b.index)\<close> of two yearly series, whose labels are ascending and
  distinct, and \<open>s.loc[labels]\<close> for labels of \<open>s\<close>.
\<close>

definition index_intersection :: "series \<Rightarrow> series \<Rightarrow> int list" where
  "index_intersection a b = filter (\<lambda>y. y \<in> set (map fst b)) (map fst a)"

definition value_at :: "series \<Rightarrow> int \<Rightarrow> double" where
  "value_at s y = (case map_of s y of Some v \<Rightarrow> v | None \<Rightarrow> NaN)"

definition loc_labels :: "series \<Rightarrow> int list \<Rightarrow> series" where
  "loc_labels s labels = map (\<lambda>y. (y, value_at s y)) labels"

text \<open>\<open>Series.diff()\<close> without its first row, which is NaN: the differences of neighbours.\<close>

fun diffs :: "double list \<Rightarrow> double list" where
  "diffs (x # y # ys) = dsub y x # diffs (y # ys)"
| "diffs ys = []"

subsection \<open>\<open>estimate_maintenance_capex\<close>\<close>

definition estimate_maintenance_capex ::
  "string \<Rightarrow> frame \<Rightarrow> frame \<Rightarrow> frame \<Rightarrow> int \<Rightarrow> real \<Rightarrow> int \<Rightarrow> double \<times> double \<times> double" where
  "estimate_maintenance_capex method inc bal cfl yrs mfactor ci_years =
     (let capex_series = get_line cfl capex_names;
          da_series = get_line cfl da_names;
          revenue_series = get_line inc revenue_names;
          capex = (case capex_series of
                     Some s \<Rightarrow> dneg (safe_avg_median (series_to_yearly s) yrs)
                   | None \<Rightarrow> Num 0);
          da = (case da_series of
                  Some s \<Rightarrow> dabs (safe_avg_median (series_to_yearly s) yrs)
                | None \<Rightarrow> Num 0);
          fallback = (dmul da (Num mfactor), capex, da)
      in if method = ''depr_factor'' then fallback
         else
           (case (revenue_series, get_line bal ppe_names) of
              (Some revs, Some ppes) \<Rightarrow>
                (let rev_y0 = series_to_yearly revs;
                     ppe_y0 = series_to_yearly ppes;
                     common_years = index_intersection rev_y0 ppe_y0;
                     rev_y = loc_labels rev_y0 common_years;
                     ppe_y = loc_labels ppe_y0 common_years
                 in if rev_y = [] \<or> ppe_y = [] then fallback
                    else
                      (let rev_tail = map snd (pd_tail ci_years rev_y);
                           ppe_tail = map snd (pd_tail ci_years ppe_y)
                       in if rev_tail = [] \<or> ppe_tail = [] \<or> pd_mean rev_tail = Num 0
                          then fallback
                          else
                            (let capital_intensity = ddiv (pd_mean ppe_tail) (pd_mean rev_tail);
                                 rev_change = dropna (diffs rev_tail);
                                 avg_rev_increase =
                                   (if rev_change \<noteq> [] then pd_mean rev_change else Num 0);
                                 growth_capex_est =
                                   dmul capital_intensity (py_max (Num 0) avg_rev_increase);
                                 maint = py_max (Num 0) (dsub capex growth_capex_est)
                             in if dle maint (Num 0)
                                then (dmul da (Num (min 1 mfactor)), capex, da)
                                else (maint, capex, da))))
            | _ \<Rightarrow> fallback))"

subsection \<open>\<open>compute_wacc\<close>\<close>

definition compute_wacc ::
  "real \<Rightarrow> real \<Rightarrow> real \<Rightarrow> real \<Rightarrow> real \<Rightarrow> real \<Rightarrow> real option \<Rightarrow> bool \<Rightarrow> real" where
  "compute_wacc rf mrp' beta' cod tax ew_in override capm =
     (case (case override of Some w \<Rightarrow> if w > 0 then Some w else None | None \<Rightarrow> None) of
        Some w \<Rightarrow> w
      | None \<Rightarrow>
          (let re = (if capm then rf + beta' * mrp' else beta');
               ew = np_clip ew_in 0 1;
               dw = 1 - ew;
               rd_after_tax = cod * (1 - tax)
           in re * ew + rd_after_tax * dw))"

subsection \<open>\<open>normalized_values\<close>\<close>

text \<open>
  The historical margin by method.  \<open>int(len(mm) * 0.2)\<close> of the trimmed mean is a fifth of
  the length, rounded down.
\<close>

definition margin_stat :: "string \<Rightarrow> int \<Rightarrow> series \<Rightarrow> double" where
  "margin_stat method yrs margin =
     (if method = ''mean''
      then (if margin \<noteq> [] then pd_mean (map snd (pd_tail yrs margin)) else NaN)
      else if method = ''trimmed''
      then (let mm = dropna (map snd (pd_tail yrs margin))
            in if length mm \<ge> 5
               then (let t = length mm div 5
                     in pd_mean (take (length mm - t - t) (drop t (dsort mm))))
               else (if mm \<noteq> [] then pd_mean mm else NaN))
      else (if margin \<noteq> [] then pd_median (map snd (pd_tail yrs margin)) else NaN))"

definition historical_margin :: "series \<Rightarrow> series \<Rightarrow> series" where
  "historical_margin rv ebit =
     (if rv \<noteq> [] \<and> ebit \<noteq> []
      then (let common = index_intersection rv ebit
            in if length common > 0
               then map (\<lambda>y. (y, ddiv (value_at ebit y) (value_at rv y))) common
               else [])
      else [])"

definition normalized_values ::
  "frame \<Rightarrow> frame \<Rightarrow> int \<Rightarrow> string \<Rightarrow> real option \<Rightarrow> double \<times> double \<times> double \<times> double" where
  "normalized_values inc cfl yrs method user_margin =
     (let rv = (case get_line inc revenue_names of Some s \<Rightarrow> series_to_yearly s | None \<Rightarrow> []);
          ebit = (case get_line inc ebit_names of Some s \<Rightarrow> series_to_yearly s | None \<Rightarrow> []);
          da = (case get_line cfl da_names of Some s \<Rightarrow> series_to_yearly s | None \<Rightarrow> []);
          norm_rev = (if rv \<noteq> [] then pd_median (map snd (pd_tail yrs rv)) else NaN);
          norm_margin =
            (case user_margin of
               Some m \<Rightarrow> if m > 0 then Num m else margin_stat method yrs (historical_margin rv ebit)
             | None \<Rightarrow> margin_stat method yrs (historical_margin rv ebit));
          norm_ebit = (if norm_rev \<noteq> NaN \<and> norm_margin \<noteq> NaN then dmul norm_rev norm_margin else NaN);
          norm_da = (if da \<noteq> [] then pd_median (map snd (pd_tail yrs da)) else NaN)
      in (norm_rev, norm_margin, norm_ebit, norm_da))"

subsection \<open>\<open>capitalize_series\<close>\<close>

text \<open>
  The loop of \<open>capitalize_series\<close> over the values, latest first, \<open>i\<close> counting from 1.
  \<open>remaining / amort_years\<close> divides two Python integers and raises for a zero divisor.
\<close>

fun capitalize_loop :: "int \<Rightarrow> int \<Rightarrow> double list \<Rightarrow> double \<Rightarrow> py_error + double" where
  "capitalize_loop amort_years i [] cap = Inr cap"
| "capitalize_loop amort_years i (v # vs) cap =
     (let remaining = max 0 (amort_years - (i - 1))
      in if amort_years = 0 then Inl ZeroDivisionError
         else capitalize_loop amort_years (i + 1) vs
                (dadd cap (dmul v (Num (real_of_int remaining / real_of_int amort_years)))))"

definition capitalize_series :: "series option \<Rightarrow> int \<Rightarrow> int \<Rightarrow> py_error + double" where
  "capitalize_series ser yrs amort_years =
     (case ser of
        None \<Rightarrow> Inr (Num 0)
      | Some xs \<Rightarrow>
          if xs = [] then Inr (Num 0)
          else (let s = dropna (map snd (pd_tail yrs (series_to_yearly xs)))
                in if s = [] then Inr (Num 0) else capitalize_loop amort_years 1 (rev s) (Num 0)))"

text \<open>
  \<open>float(series_to_yearly(s).tail(1).iloc[0])\<close> when the line exists and that tail is not
  empty, and zero otherwise.
\<close>

definition latest_or_zero :: "series option \<Rightarrow> double" where
  "latest_or_zero ser =
     (case ser of
        None \<Rightarrow> Num 0
      | Some xs \<Rightarrow>
          if pd_tail 1 (series_to_yearly xs) = [] then Num 0
          else snd (hd (pd_tail 1 (series_to_yearly xs))))"

text \<open>
  \<open>x = fin.get(k) or np.nan\<close>, then \<open>if use_manual and manual and manual > 0: x = manual\<close>.
  A missing or zero value is NaN.
\<close>

definition or_nan :: "real option \<Rightarrow> real option" where
  "or_nan x = (case x of None \<Rightarrow> None | Some v \<Rightarrow> if v = 0 then None else Some v)"

definition manual_override :: "bool \<Rightarrow> real option \<Rightarrow> real option \<Rightarrow> real option" where
  "manual_override use_manual manual x =
     (case manual of
        Some m \<Rightarrow> if use_manual \<and> m \<noteq> 0 \<and> m > 0 then Some m else x
      | None \<Rightarrow> x)"

text \<open>\<open>float(x) if x else np.nan\<close>: zero is falsy and becomes NaN, NaN is truthy and stays.\<close>

definition truthy_or_nan :: "real option \<Rightarrow> real option" where
  "truthy_or_nan x = (case x of None \<Rightarrow> None | Some v \<Rightarrow> if v = 0 then None else Some v)"

definition truthy_or_nan_double :: "double \<Rightarrow> double" where
  "truthy_or_nan_double x = (if x = Num 0 then NaN else x)"

subsection \<open>\<open>compute_epv\<close>\<close>

text \<open>
  \<open>float(lti_series.iloc[-1])\<close>, the cell of the long-term investments in the last column
  of the balance sheet, or zero without that line.
\<close>

definition lti_latest :: "frame \<Rightarrow> double" where
  "lti_latest bal =
     (case get_line bal lti_names of
        None \<Rightarrow> Num 0
      | Some s \<Rightarrow> if s = [] then Num 0 else snd (last s))"

text \<open>The capitalised R&D and SG&A, zero when the capitalisation is switched off.\<close>

definition rd_capital_of :: "Financials \<Rightarrow> EPVInputs \<Rightarrow> py_error + double" where
  "rd_capital_of fin inputs =
     (if rd_capitalize inputs
      then capitalize_series (get_line (fin_income fin) rd_names) (years inputs) (rd_years inputs)
      else Inr (Num 0))"

definition sga_capital_of :: "Financials \<Rightarrow> EPVInputs \<Rightarrow> py_error + double" where
  "sga_capital_of fin inputs =
     (if sga_capitalize inputs
      then capitalize_series (get_line (fin_income fin) sga_names) (years inputs) (sga_years inputs)
      else Inr (Num 0))"

definition compute_epv :: "Financials \<Rightarrow> EPVInputs \<Rightarrow> py_error + EPVOutputs" where
  "compute_epv fin inputs =
     (case normalized_values (fin_income fin) (fin_cashflow fin) (years inputs)
             (margin_method inputs) (normalized_margin inputs) of
        (norm_rev, norm_margin, norm_ebit, norm_da) \<Rightarrow>
     (case estimate_maintenance_capex (maintenance_method inputs) (fin_income fin)
             (fin_balance fin) (fin_cashflow fin) (years inputs) (maint_factor inputs)
             (capital_intensity_years inputs) of
        (maint_capex, avg_capex, norm_da_check) \<Rightarrow>
     (case rd_capital_of fin inputs of
        Inl e \<Rightarrow> Inl e
      | Inr rd_capital \<Rightarrow>
     (case sga_capital_of fin inputs of
        Inl e \<Rightarrow> Inl e
      | Inr sga_capital \<Rightarrow>
     (let rd_latest = latest_or_zero (get_line (fin_income fin) rd_names);
          sga_latest = latest_or_zero (get_line (fin_income fin) sga_names);
          rd_amort = (if rd_capitalize inputs \<and> rd_years inputs > 0
                      then ddiv rd_capital (Num (real_of_int (rd_years inputs))) else Num 0);
          sga_amort = (if sga_capitalize inputs \<and> sga_years inputs > 0
                       then ddiv sga_capital (Num (real_of_int (sga_years inputs))) else Num 0);
          ebit_adj0 = norm_ebit;
          ebit_adj1 = (if rd_capitalize inputs
                       then dsub (dadd ebit_adj0 rd_latest) rd_amort else ebit_adj0);
          ebit_adj = (if sga_capitalize inputs
                      then dsub (dadd ebit_adj1 sga_latest) sga_amort else ebit_adj1);
          pre_tax_operating = dsub (dadd ebit_adj norm_da) maint_capex;
          tax = np_clip (tax_rate inputs) 0 0.5;
          epo_after_tax = dmul pre_tax_operating (Num (1 - tax));
          wacc0 = compute_wacc (rf_rate inputs) (mrp inputs) (beta inputs) (cost_of_debt inputs)
                    tax (equity_weight inputs) (wacc_override inputs) (use_capm inputs);
          wacc = max 0.03 wacc0;
          value_operations = ddiv (py_max (Num 0) epo_after_tax) (Num wacc);
          cash_balance = or_zero (fin_cash fin);
          excess_cash = cash_balance * excess_cash_pct inputs;
          non_op_assets = dadd (lti_latest (fin_balance fin)) (dadd rd_capital sga_capital);
          debt = or_zero (fin_total_debt fin);
          equity_value =
            dadd (dsub (dadd (dadd value_operations (Num excess_cash)) non_op_assets) (Num debt))
              (Num (other_adjustments inputs));
          shares = manual_override (use_manual_shares inputs) (manual_shares inputs)
                     (or_nan (fin_shares fin));
          value_per_share =
            (case shares of Some sh \<Rightarrow> if sh > 0 then ddiv equity_value (Num sh) else NaN
             | None \<Rightarrow> NaN);
          price = manual_override (use_manual_price inputs) (manual_price inputs)
                    (or_nan (fin_price fin));
          upside =
            (case price of
               Some p \<Rightarrow> if p > 0 \<and> dless (Num 0) value_per_share
                         then dsub (ddiv value_per_share (Num p)) (Num 1) else NaN
             | None \<Rightarrow> NaN)
      in Inr \<lparr> out_normalized_revenue = norm_rev,
               out_normalized_margin = norm_margin,
               out_normalized_ebit = ebit_adj,
               out_normalized_da = norm_da,
               out_maintenance_capex = maint_capex,
               out_epo_after_tax = epo_after_tax,
               out_wacc = wacc,
               out_value_operations = value_operations,
               out_cash_adjusted = excess_cash,
               out_non_operating_assets = non_op_assets,
               out_debt = debt,
               out_other_adjustments = other_adjustments inputs,
               out_equity_value = equity_value,
               out_shares = truthy_or_nan shares,
               out_value_per_share = truthy_or_nan_double value_per_share,
               out_price = truthy_or_nan price,
               out_upside = truthy_or_nan_double upside \<rparr>)))))"


subsection \<open>Attributes set by name\<close>

text \<open>
  \<open>tornado_data\<close> and \<open>monte_carlo\<close> read and write attributes of \<open>EPVInputs\<close> by name
  (\<open>getattr\<close>, \<open>setattr\<close>) and put floats there.  The drivers modelled are the attributes
  of type \<open>float\<close> or \<open>Optional[float]\<close>; these are the ones the application passes.
\<close>

datatype float_attr =
    A_normalized_margin | A_tax_rate | A_rf_rate | A_mrp | A_beta | A_cost_of_debt
  | A_equity_weight | A_maint_factor | A_excess_cash_pct | A_other_adjustments
  | A_manual_shares | A_manual_price | A_wacc_override


text \<open>\<open>setattr(inp, param, v)\<close> on a fresh copy \<open>EPVInputs(**vars(base_inputs))\<close>.\<close>

fun setattr_float :: "EPVInputs \<Rightarrow> float_attr \<Rightarrow> real \<Rightarrow> EPVInputs" where
  "setattr_float inp A_normalized_margin v = inp\<lparr>normalized_margin := Some v\<rparr>"
| "setattr_float inp A_tax_rate v = inp\<lparr>tax_rate := v\<rparr>"
| "setattr_float inp A_rf_rate v = inp\<lparr>rf_rate := v\<rparr>"
| "setattr_float inp A_mrp v = inp\<lparr>mrp := v\<rparr>"
| "setattr_float inp A_beta v = inp\<lparr>beta := v\<rparr>"
| "setattr_float inp A_cost_of_debt v = inp\<lparr>cost_of_debt := v\<rparr>"
| "setattr_float inp A_equity_weight v = inp\<lparr>equity_weight := v\<rparr>"
| "setattr_float inp A_maint_factor v = inp\<lparr>maint_factor := v\<rparr>"
| "setattr_float inp A_excess_cash_pct v = inp\<lparr>excess_cash_pct := v\<rparr>"
| "setattr_float inp A_other_adjustments v = inp\<lparr>other_adjustments := v\<rparr>"
| "setattr_float inp A_manual_shares v = inp\<lparr>manual_shares := Some v\<rparr>"
| "setattr_float inp A_manual_price v = inp\<lparr>manual_price := Some v\<rparr>"
| "setattr_float inp A_wacc_override v = inp\<lparr>wacc_override := Some v\<rparr>"

subsection \<open>\<open>tornado_data\<close>\<close>







subsection \<open>\<open>monte_carlo\<close> of the EPV application\<close>

text \<open>
  A distribution \<open>{"mu": , "sigma": , "min": , "max": }\<close>; a missing key takes the default
  of \<open>spec.get\<close>: 0 for \<open>mu\<close> and \<open>sigma\<close>, no bound for \<open>min\<close> and \<open>max\<close>.
\<close>

record dist_spec =
  d_mu :: "real option"
  d_sigma :: "real option"
  d_min :: "real option"
  d_max :: "real option"

definition np_clip_opt :: "real \<Rightarrow> real option \<Rightarrow> real option \<Rightarrow> real" where
  "np_clip_opt x lo hi =
     (let y = (case lo of None \<Rightarrow> x | Some l \<Rightarrow> max x l)
      in case hi of None \<Rightarrow> y | Some h \<Rightarrow> min y h)"

text \<open>
  The generator is numpy's: its state is a value of an arbitrary type \<open>'g\<close>, and
  \<open>normal g loc scale\<close> returns the draw and the next state.  numpy raises \<open>ValueError\<close> for
  a negative scale.
\<close>

definition draw_normal ::
  "('g \<Rightarrow> real \<Rightarrow> real \<Rightarrow> real \<times> 'g) \<Rightarrow> 'g \<Rightarrow> real \<Rightarrow> real \<Rightarrow> py_error + real \<times> 'g" where
  "draw_normal normal g loc scale = (if scale < 0 then Inl ValueError else Inr (normal g loc scale))"

fun mc_set_params ::
  "('g \<Rightarrow> real \<Rightarrow> real \<Rightarrow> real \<times> 'g) \<Rightarrow> (float_attr \<times> dist_spec) list \<Rightarrow> 'g \<Rightarrow> EPVInputs \<Rightarrow>
   py_error + EPVInputs \<times> 'g" where
  "mc_set_params normal [] g inp = Inr (inp, g)"
| "mc_set_params normal ((param, spec) # dists) g inp =
     (case draw_normal normal g (or_zero (d_mu spec)) (or_zero (d_sigma spec)) of
        Inl e \<Rightarrow> Inl e
      | Inr (val, g') \<Rightarrow>
          mc_set_params normal dists g'
            (setattr_float inp param (np_clip_opt val (d_min spec) (d_max spec))))"

fun mc_epv_loop ::
  "('g \<Rightarrow> real \<Rightarrow> real \<Rightarrow> real \<times> 'g) \<Rightarrow> EPVInputs \<Rightarrow> Financials \<Rightarrow>
   (float_attr \<times> dist_spec) list \<Rightarrow> nat \<Rightarrow> 'g \<Rightarrow> py_error + double list" where
  "mc_epv_loop normal base_inputs fin dists 0 g = Inr []"
| "mc_epv_loop normal base_inputs fin dists (Suc k) g =
     (case mc_set_params normal dists g base_inputs of
        Inl e \<Rightarrow> Inl e
      | Inr (inp, g') \<Rightarrow>
     (case compute_epv fin inp of
        Inl e \<Rightarrow> Inl e
      | Inr out \<Rightarrow>
     (case mc_epv_loop normal base_inputs fin dists k g' of
        Inl e \<Rightarrow> Inl e
      | Inr samples \<Rightarrow> Inr (out_value_per_share out # samples))))"

text \<open>
  \<open>rng = np.random.default_rng(42)\<close>: the generator is created inside the function from the
  constant seed 42; \<open>default_rng\<close> maps a seed to the initial state.  The frame returned
  is the column of samples after \<open>dropna()\<close>.
\<close>

definition monte_carlo_epv ::
  "(int \<Rightarrow> 'g) \<Rightarrow> ('g \<Rightarrow> real \<Rightarrow> real \<Rightarrow> real \<times> 'g) \<Rightarrow> EPVInputs \<Rightarrow> Financials \<Rightarrow> int \<Rightarrow>
   (float_attr \<times> dist_spec) list \<Rightarrow> py_error + double list" where
  "monte_carlo_epv default_rng normal base_inputs fin n dists =
     (case mc_epv_loop normal base_inputs fin dists (nat n) (default_rng 42) of
        Inl e \<Rightarrow> Inl e
      | Inr samples \<Rightarrow> Inr (dropna samples))"


section \<open>The DCF model of the command-line application (\<open>summit_pe.txt\<close>)\<close>

subsection \<open>Configuration\<close>

text \<open>
  The data classes of the configuration.  A field whose name is shared by two classes
  carries a prefix here.  A dictionary read from JSON is an association list in insertion
  order, with distinct keys.
\<close>

record ProcedureCategory =
  cat_name :: string
  avg_price_year1 :: real
  price_inflation :: real
  avg_duration_min :: real
  material_cost_per_proc :: real
  volume_growth :: real

record ProviderType =
  prov_name :: string
  fte_per_clinic_year1 :: real
  fte_growth :: real
  base_salary_per_fte :: real
  benefits_load :: real
  commission_by_category :: "(string \<times> real) list"
  hours_per_week :: real
  weeks_per_year :: real
  utilization :: real
  category_mix :: "(string \<times> real) list"

record EquipmentAsset =
  asset_name :: string
  cost :: real
  purchase_year :: int
  life_years :: int
  salvage_value :: real
  annual_maintenance_pct :: real

record FixedExpense =
  fe_name :: string
  amount_year1 :: real
  growth :: real

record VariableExpense =
  ve_name :: string
  pct_of_revenue :: real

record MembershipSettings =
  monthly_fee :: real
  members_per_clinic_year1 :: int
  members_growth :: real
  annual_churn :: real

record RetailSettings =
  pct_of_service_revenue :: real
  gross_margin :: real

record WorkingCapitalSettings =
  dso_days :: int
  dio_days :: int
  dpo_days :: int
  membership_deferral_months :: int

record WACCSettings =
  risk_free_rate :: real
  equity_risk_premium :: real
  w_beta :: real
  size_premium :: real
  specific_risk :: real
  pre_tax_cost_of_debt :: real
  target_debt_to_total_cap :: real
  w_tax_rate :: real

record TerminalSettings =
  terminal_method :: string
  gordon_growth :: real
  exit_ebitda_multiple :: real

record ExpansionSettings =
  clinics_year1 :: int
  new_clinics_per_year :: "int list"

record ModelConfig =
  cfg_name :: string
  currency :: string
  forecast_years :: int
  corporate_tax_rate :: real
  inflation :: real
  procedure_categories :: "ProcedureCategory list"
  provider_types :: "ProviderType list"
  equipment_assets :: "EquipmentAsset list"
  fixed_opex :: "FixedExpense list"
  variable_opex :: "VariableExpense list"
  membership :: MembershipSettings
  retail :: RetailSettings
  working_capital :: WorkingCapitalSettings
  wacc_settings :: WACCSettings
  terminal :: TerminalSettings
  expansion :: ExpansionSettings
  maintenance_capex_pct_of_revenue :: real
  net_debt :: real
  cash_minimum :: real

text \<open>One dictionary of \<open>results\<close>, and the dictionary \<open>meta\<close>.\<close>

record forecast_row =
  r_year :: int
  r_clinics :: int
  r_service_revenue :: real
  r_membership_revenue :: real
  r_retail_revenue :: real
  r_total_revenue :: real
  r_material_costs :: real
  r_retail_cogs :: real
  r_commission_costs :: real
  r_provider_fixed_comp :: real
  r_gross_profit :: real
  r_fixed_opex :: real
  r_variable_opex :: real
  r_ebitda :: real
  r_depreciation :: real
  r_ebit :: real
  r_nopat :: real
  r_capex :: real
  r_delta_nwc :: real
  r_ufcf :: real
  r_ar :: real
  r_inv :: real
  r_ap :: real
  r_deferred_rev :: real

record valuation_meta =
  meta_wacc :: real
  pv_flows :: real
  terminal_value :: real
  pv_terminal :: real
  enterprise_value :: real
  equity_value :: real

subsection \<open>Utilities and validation\<close>

text \<open>\<open>_years(n) = list(range(1, n + 1))\<close>.\<close>

definition years_list :: "int \<Rightarrow> int list" where
  "years_list n = [1..n]"

text \<open>\<open>dct.get(key, default)\<close>.\<close>

definition safe_get :: "(string \<times> real) list \<Rightarrow> string \<Rightarrow> real \<Rightarrow> real" where
  "safe_get dct key dflt = (case map_of dct key of Some v \<Rightarrow> v | None \<Rightarrow> dflt)"





subsection \<open>\<open>ValuationModel\<close>\<close>


text \<open>The number of forecast years, \<open>len(years)\<close>.\<close>

definition n_years :: "ModelConfig \<Rightarrow> nat" where
  "n_years cfg = length (years_list (forecast_years cfg))"

fun clinics_loop :: "int list \<Rightarrow> nat \<Rightarrow> int list \<Rightarrow> int \<Rightarrow> int list" where
  "clinics_loop adds i [] tot = []"
| "clinics_loop adds i (y # ys) tot =
     (let tot' = tot + (if i > 0 then adds ! i else 0)
      in tot' # clinics_loop adds (Suc i) ys tot')"

text \<open>
  \<open>adds\<close> is padded with zeros to the number of forecast years, so \<open>adds[i]\<close> is in range
  for every index of the loop.
\<close>

definition clinics_by_year :: "ModelConfig \<Rightarrow> int list" where
  "clinics_by_year cfg =
     (let yrs = years_list (forecast_years cfg);
          adds0 = new_clinics_per_year (expansion cfg);
          adds = (if int (length adds0) < forecast_years cfg
                  then adds0 @ replicate (nat (forecast_years cfg - int (length adds0))) 0
                  else adds0)
      in clinics_loop adds 0 yrs (clinics_year1 (expansion cfg)))"

definition wacc :: "ModelConfig \<Rightarrow> real" where
  "wacc cfg =
     (let w = wacc_settings cfg;
          ke = risk_free_rate w + w_beta w * equity_risk_premium w + size_premium w + specific_risk w;
          kd_after = pre_tax_cost_of_debt w * (1 - w_tax_rate w);
          D = target_debt_to_total_cap w;
          E = 1 - D
      in E * ke + D * kd_after)"

definition category_price :: "ProcedureCategory \<Rightarrow> nat \<Rightarrow> real" where
  "category_price cat year_idx = avg_price_year1 cat * (1 + price_inflation cat) ^ year_idx"


subsection \<open>Schedules prepared before the forecast loop\<close>

text \<open>\<open>xs[i] += v\<close>, used only at indices below the length of the list.\<close>

definition add_at :: "nat \<Rightarrow> real \<Rightarrow> real list \<Rightarrow> real list" where
  "add_at i v xs = xs[i := xs ! i + v]"

text \<open>
  One pass of the loop over \<open>cfg.equipment_assets\<close>, on the triple
  \<open>(dep_by_year, capex_by_year, maint_by_year)\<close>; \<open>n\<close> is the number of forecast years.
  An asset bought outside the horizon is skipped.  The division by \<open>life_years\<close> sits
  inside \<open>range(life_years)\<close>, so it is reached only for a positive life.
\<close>

definition asset_schedule ::
  "nat \<Rightarrow> EquipmentAsset \<Rightarrow> real list \<times> real list \<times> real list \<Rightarrow>
   real list \<times> real list \<times> real list" where
  "asset_schedule n asset sch =
     (case sch of (dep_by_year, capex_by_year, maint_by_year) \<Rightarrow>
        if purchase_year asset < 1 \<or> purchase_year asset > int n then sch
        else
          (let p = nat (purchase_year asset - 1);
               capex' = add_at p (cost asset) capex_by_year;
               dep' = fold (\<lambda>i d. let idx = p + i
                                   in if idx < n
                                      then add_at idx
                                             (max 0 ((cost asset - salvage_value asset) /
                                                      real_of_int (life_years asset))) d
                                      else d)
                        [0..<nat (life_years asset)] dep_by_year;
               maint' = fold (\<lambda>idx m. add_at idx (annual_maintenance_pct asset * cost asset) m)
                          [p..<n] maint_by_year
           in (dep', capex', maint')))"

definition equipment_schedules :: "ModelConfig \<Rightarrow> real list \<times> real list \<times> real list" where
  "equipment_schedules cfg =
     (let n = n_years cfg
      in fold (asset_schedule n) (equipment_assets cfg)
           (replicate n 0, replicate n 0, replicate n 0))"

text \<open>Python's \<open>int(x)\<close> on a float truncates towards zero.\<close>

definition py_int :: "real \<Rightarrow> int" where
  "py_int x = (if x \<ge> 0 then \<lfloor>x\<rfloor> else \<lceil>x\<rceil>)"

fun members_loop :: "MembershipSettings \<Rightarrow> int list \<Rightarrow> int \<Rightarrow> int list" where
  "members_loop ms [] members = []"
| "members_loop ms (y # ys) members =
     (let members' = py_int (real_of_int members * (1 - annual_churn ms) * (1 + members_growth ms))
      in max 0 members' # members_loop ms ys members')"

definition members_by_year :: "ModelConfig \<Rightarrow> int list" where
  "members_by_year cfg =
     members_loop (membership cfg) (years_list (forecast_years cfg))
       (members_per_clinic_year1 (membership cfg))"

subsection \<open>One year of the forecast loop\<close>

text \<open>
  The dictionaries \<open>cat_minutes\<close> (by category name) and \<open>prov_minutes_by_cat\<close> (by provider
  and category name).
\<close>

type_synonym minute_maps = "(string \<rightharpoonup> real) \<times> (string \<times> string \<rightharpoonup> real)"

definition get_or_zero :: "('k \<rightharpoonup> real) \<Rightarrow> 'k \<Rightarrow> real" where
  "get_or_zero m k = (case m k of None \<Rightarrow> 0 | Some v \<Rightarrow> v)"

definition fte_total :: "ProviderType \<Rightarrow> nat \<Rightarrow> int \<Rightarrow> real" where
  "fte_total p idx num_clinics =
     fte_per_clinic_year1 p * (1 + fte_growth p) ^ idx * real_of_int num_clinics"

definition allocate_share :: "string \<Rightarrow> real \<Rightarrow> string \<times> real \<Rightarrow> minute_maps \<Rightarrow> minute_maps" where
  "allocate_share pname minutes_total kv mm =
     (case kv of (cname, share) \<Rightarrow>
      case mm of (cat_minutes, prov_minutes_by_cat) \<Rightarrow>
        (let mins = minutes_total * share
         in (cat_minutes(cname \<mapsto> get_or_zero cat_minutes cname + mins),
             prov_minutes_by_cat((pname, cname) \<mapsto> mins))))"

definition allocate_provider :: "nat \<Rightarrow> int \<Rightarrow> ProviderType \<Rightarrow> minute_maps \<Rightarrow> minute_maps" where
  "allocate_provider idx num_clinics p mm =
     (let minutes_total =
            fte_total p idx num_clinics * hours_per_week p * weeks_per_year p * 60 * utilization p
      in fold (allocate_share (prov_name p) minutes_total) (category_mix p) mm)"

text \<open>
  Revenue, material cost and commission of one category in the year with index \<open>idx\<close>.
  The count of procedures is capped by the supply of provider minutes.
\<close>

definition category_result ::
  "ProviderType list \<Rightarrow> minute_maps \<Rightarrow> nat \<Rightarrow> ProcedureCategory \<Rightarrow> real \<times> real \<times> real" where
  "category_result providers mm idx cat =
     (case mm of (cat_minutes, prov_minutes_by_cat) \<Rightarrow>
        (let minutes = get_or_zero cat_minutes (cat_name cat);
             procs_supply = minutes / max (1 / 1000000) (avg_duration_min cat);
             unit_growth_multiplier = (1 + volume_growth cat) ^ idx;
             procs = min procs_supply (procs_supply * unit_growth_multiplier);
             price = category_price cat idx;
             revenue = procs * price;
             mat_cost = procs * material_cost_per_proc cat;
             commission =
               (if minutes > 0
                then foldl (\<lambda>acc p.
                       (let pmins = get_or_zero prov_minutes_by_cat (prov_name p, cat_name cat)
                        in if pmins \<le> 0 then acc
                           else acc + revenue * (pmins / minutes) *
                                  safe_get (commission_by_category p) (cat_name cat) 0))
                     0 providers
                else 0)
         in (revenue, mat_cost, commission)))"

text \<open>\<open>acc = 0.0; for x in xs: acc += x\<close>.\<close>

definition accumulate :: "real list \<Rightarrow> real" where
  "accumulate xs = foldl (\<lambda>acc x. acc + x) 0 xs"

text \<open>
  The body of the forecast loop for the year \<open>y\<close> at index \<open>idx\<close>.  \<open>prev\<close> is
  \<open>(ar_last, inv_last, ap_last, defrev_last)\<close>; the result is the row appended to \<open>results\<close>
  and the balances carried to the next year.  Every list read by index has one entry per
  forecast year and \<open>idx\<close> is below that number.
\<close>

definition forecast_year ::
  "ModelConfig \<Rightarrow> int list \<Rightarrow> real list \<Rightarrow> real list \<Rightarrow> real list \<Rightarrow> int list \<Rightarrow>
   nat \<Rightarrow> int \<Rightarrow> real \<times> real \<times> real \<times> real \<Rightarrow>
   forecast_row \<times> (real \<times> real \<times> real \<times> real)" where
  "forecast_year cfg clinics dep_by_year capex_by_year maint_by_year members idx y prev =
     (case prev of (ar_last, inv_last, ap_last, defrev_last) \<Rightarrow>
     (let providers = provider_types cfg;
          num_clinics = clinics ! idx;
          mm = fold (allocate_provider idx num_clinics) providers
                 (map_of (map (\<lambda>c. (cat_name c, 0)) (procedure_categories cfg)), Map.empty);
          cats = map (category_result providers mm idx) (procedure_categories cfg);
          service_revenue = accumulate (map (\<lambda>c. fst c) cats);
          material_costs = accumulate (map (\<lambda>c. fst (snd c)) cats);
          commission_costs = accumulate (map (\<lambda>c. snd (snd c)) cats);
          members_count = (members ! idx) * num_clinics;
          membership_rev_gross = real_of_int members_count * monthly_fee (membership cfg) * 12;
          membership_def_months = membership_deferral_months (working_capital cfg);
          deferred_portion =
            (if membership_def_months > 0
             then membership_rev_gross * (real_of_int membership_def_months / 12) else 0);
          retail_revenue = service_revenue * pct_of_service_revenue (retail cfg);
          retail_cogs = retail_revenue * (1 - gross_margin (retail cfg));
          total_revenue = service_revenue + membership_rev_gross + retail_revenue;
          provider_fixed_comp =
            accumulate (map (\<lambda>p. fte_total p idx num_clinics * base_salary_per_fte p *
                                   (1 + benefits_load p)) providers);
          fixed_opex_sum =
            accumulate (map (\<lambda>fe. amount_year1 fe * (1 + growth fe) ^ idx) (fixed_opex cfg));
          variable_opex_sum =
            accumulate (map (\<lambda>ve. total_revenue * pct_of_revenue ve) (variable_opex cfg));
          maint_capex = maintenance_capex_pct_of_revenue cfg * total_revenue + maint_by_year ! idx;
          capex = capex_by_year ! idx + maint_capex;
          cogs = material_costs + retail_cogs + commission_costs + provider_fixed_comp;
          gross_profit = total_revenue - cogs;
          opex_total = fixed_opex_sum + variable_opex_sum;
          ebitda = gross_profit - opex_total;
          depreciation = dep_by_year ! idx;
          ebit = ebitda - depreciation;
          nopat = ebit * (1 - corporate_tax_rate cfg);
          dso = real_of_int (dso_days (working_capital cfg));
          dio = real_of_int (dio_days (working_capital cfg));
          dpo = real_of_int (dpo_days (working_capital cfg));
          days = 365;
          ar = total_revenue * (dso / days);
          inv = (material_costs + retail_cogs) * (dio / days);
          ap = (material_costs + retail_cogs) * (dpo / days);
          defrev = deferred_portion;
          delta_nwc = (ar - ar_last) + (inv - inv_last) - (ap - ap_last) + (defrev - defrev_last);
          ufcf = nopat + depreciation - capex - delta_nwc
      in (\<lparr> r_year = y, r_clinics = num_clinics, r_service_revenue = service_revenue,
             r_membership_revenue = membership_rev_gross, r_retail_revenue = retail_revenue,
             r_total_revenue = total_revenue, r_material_costs = material_costs,
             r_retail_cogs = retail_cogs, r_commission_costs = commission_costs,
             r_provider_fixed_comp = provider_fixed_comp, r_gross_profit = gross_profit,
             r_fixed_opex = fixed_opex_sum, r_variable_opex = variable_opex_sum,
             r_ebitda = ebitda, r_depreciation = depreciation, r_ebit = ebit, r_nopat = nopat,
             r_capex = capex, r_delta_nwc = delta_nwc, r_ufcf = ufcf, r_ar = ar, r_inv = inv,
             r_ap = ap, r_deferred_rev = defrev \<rparr>,
          (ar, inv, ap, defrev))))"

fun forecast_loop ::
  "ModelConfig \<Rightarrow> int list \<Rightarrow> real list \<Rightarrow> real list \<Rightarrow> real list \<Rightarrow> int list \<Rightarrow>
   nat \<Rightarrow> int list \<Rightarrow> real \<times> real \<times> real \<times> real \<Rightarrow> forecast_row list" where
  "forecast_loop cfg clinics dep cpx mnt members idx [] prev = []"
| "forecast_loop cfg clinics dep cpx mnt members idx (y # ys) prev =
     (case forecast_year cfg clinics dep cpx mnt members idx y prev of
        (row, carried) \<Rightarrow> row # forecast_loop cfg clinics dep cpx mnt members (Suc idx) ys carried)"

text \<open>The list \<open>results\<close> at the end of the forecast loop.\<close>

definition forecast_rows :: "ModelConfig \<Rightarrow> forecast_row list" where
  "forecast_rows cfg =
     (case equipment_schedules cfg of
        (dep_by_year, capex_by_year, maint_by_year) \<Rightarrow>
          forecast_loop cfg (clinics_by_year cfg) dep_by_year capex_by_year maint_by_year
            (members_by_year cfg) 0 (years_list (forecast_years cfg)) (0, 0, 0, 0))"

subsection \<open>\<open>run_forecast\<close>\<close>

text \<open>
  \<open>[(1 / ((1 + wacc) ** i)) for i in range(1, years_len + 1)]\<close>: with at least one year
  and a WACC of -100% the first division raises.
\<close>

definition discount_factors :: "real \<Rightarrow> nat \<Rightarrow> py_error + real list" where
  "discount_factors w years_len =
     (if years_len \<ge> 1 \<and> 1 + w = 0 then Inl ZeroDivisionError
      else Inr (map (\<lambda>i. 1 / (1 + w) ^ i) [1..<Suc years_len]))"

text \<open>
  The terminal value.  Any method other than \<open>"gordon"\<close> takes the exit-multiple branch.
  The Gordon branch divides by \<open>wacc - gordon_growth\<close> with no guard.
\<close>

definition terminal_value_of :: "ModelConfig \<Rightarrow> real \<Rightarrow> forecast_row \<Rightarrow> py_error + real" where
  "terminal_value_of cfg w lst =
     (if terminal_method (terminal cfg) = ''gordon''
      then (if w - gordon_growth (terminal cfg) = 0 then Inl ZeroDivisionError
            else Inr (r_ufcf lst * (1 + gordon_growth (terminal cfg)) /
                      (w - gordon_growth (terminal cfg))))
      else Inr (r_ebitda lst * exit_ebitda_multiple (terminal cfg)))"

text \<open>
  \<open>results[-1]\<close> raises \<open>IndexError\<close> when there is no forecast year.  The last division,
  by \<open>(1 + wacc) ** years_len\<close>, is reached only after the discount factors were computed,
  so its divisor is not zero.
\<close>

definition run_forecast :: "ModelConfig \<Rightarrow> py_error + forecast_row list \<times> valuation_meta" where
  "run_forecast cfg =
     (let results = forecast_rows cfg;
          w = wacc cfg;
          cashflows = map r_ufcf results;
          years_len = length cashflows
      in case discount_factors w years_len of
           Inl e \<Rightarrow> Inl e
         | Inr dfs \<Rightarrow>
             (let pv = sum_list (map (\<lambda>(cf, df). cf * df) (zip cashflows dfs))
              in if results = [] then Inl IndexError
                 else
                   (case terminal_value_of cfg w (last results) of
                      Inl e \<Rightarrow> Inl e
                    | Inr tv \<Rightarrow>
                        (let pv_tv = tv / (1 + w) ^ years_len;
                             ev = pv + pv_tv;
                             equity = ev - net_debt cfg
                         in Inr (results,
                                 \<lparr> meta_wacc = w, pv_flows = pv, terminal_value = tv,
                                   pv_terminal = pv_tv, enterprise_value = ev,
                                   equity_value = equity \<rparr>)))))"


subsection \<open>The Monte Carlo command\<close>

text \<open>
  \<open>monte_carlo\<close> works on \<open>c = json.loads(json.dumps(asdict(base)))\<close>, a dictionary of
  nested dictionaries that encodes a copy of the base configuration.
  \<open>_load_config_obj(cdict)\<close> builds a \<open>ModelConfig\<close> from such a dictionary, and on its way
  it assigns the data-class objects it builds back into \<open>cdict\<close>: after the call the entries
  of \<open>cdict\<close> are objects, no longer dictionaries.  The model keeps the encoded
  configuration together with that one bit of state.
\<close>

record cdict =
  cd_config :: ModelConfig
  cd_loaded :: bool

definition fresh_cdict :: "ModelConfig \<Rightarrow> cdict" where
  "fresh_cdict base = \<lparr> cd_config = base, cd_loaded = False \<rparr>"

text \<open>
  On a dictionary whose entries are objects already, \<open>MembershipSettings(**cdict["membership"])\<close>
  (or an earlier constructor call of the function) raises \<open>TypeError\<close>, since the argument
  after \<open>**\<close> is not a mapping.
\<close>

definition load_config_obj :: "cdict \<Rightarrow> py_error + ModelConfig \<times> cdict" where
  "load_config_obj cd =
     (if cd_loaded cd then Inl TypeError else Inr (cd_config cd, cd\<lparr>cd_loaded := True\<rparr>))"

text \<open>
  \<open>_set_wacc\<close> takes \<open>w = cdict["wacc"]\<close>, calls \<open>_load_config_obj(cdict)\<close> to compute the
  current WACC, and writes the adjusted specific risk into \<open>w\<close>.  By then \<open>cdict["wacc"]\<close>
  is a new \<open>WACCSettings\<close> object, so the write goes to the old dictionary \<open>w\<close>, which
  nothing reads afterwards (\<open>detached\<close> below): the configuration in \<open>cdict\<close> keeps its
  WACC, and its entries are objects from here on.
\<close>

definition set_wacc :: "cdict \<Rightarrow> real \<Rightarrow> py_error + cdict" where
  "set_wacc cd new_wacc =
     (case load_config_obj cd of
        Inl e \<Rightarrow> Inl e
      | Inr (wacc_obj, cd') \<Rightarrow>
          (let curr = wacc wacc_obj;
               delta = new_wacc - curr;
               detached = (wacc_settings wacc_obj)
                            \<lparr>specific_risk :=
                               max 0 (specific_risk (wacc_settings wacc_obj) + delta)\<rparr>
           in Inr cd'))"

text \<open>
  Subscripting an entry of the dictionary, as in \<open>c["terminal"]["method"]\<close>, raises
  \<open>TypeError\<close> once the entry is a data-class object.
\<close>

definition cdict_terminal :: "cdict \<Rightarrow> py_error + TerminalSettings" where
  "cdict_terminal cd = (if cd_loaded cd then Inl TypeError else Inr (terminal (cd_config cd)))"

definition set_exit :: "cdict \<Rightarrow> real \<Rightarrow> py_error + cdict" where
  "set_exit cd new_mult =
     (if cd_loaded cd then Inl TypeError
      else Inr (cd\<lparr>cd_config :=
                     (cd_config cd)
                       \<lparr>terminal := (terminal (cd_config cd))
                          \<lparr>terminal_method := ''exit'', exit_ebitda_multiple := new_mult\<rparr>\<rparr>\<rparr>))"

text \<open>
  The three mutators below loop over a list of the dictionary and subscript each element;
  on a list of objects the first element raises, an empty list raises nothing.
\<close>

definition set_util :: "cdict \<Rightarrow> string \<Rightarrow> real \<Rightarrow> py_error + cdict" where
  "set_util cd provider_name new_util =
     (if cd_loaded cd \<and> provider_types (cd_config cd) \<noteq> [] then Inl TypeError
      else Inr (cd\<lparr>cd_config :=
                     (cd_config cd)
                       \<lparr>provider_types :=
                          map (\<lambda>p. if prov_name p = provider_name
                                    then p\<lparr>utilization := new_util\<rparr> else p)
                            (provider_types (cd_config cd))\<rparr>\<rparr>))"

definition set_cat_infl :: "cdict \<Rightarrow> string \<Rightarrow> real \<Rightarrow> py_error + cdict" where
  "set_cat_infl cd name new_infl =
     (if cd_loaded cd \<and> procedure_categories (cd_config cd) \<noteq> [] then Inl TypeError
      else Inr (cd\<lparr>cd_config :=
                     (cd_config cd)
                       \<lparr>procedure_categories :=
                          map (\<lambda>k. if cat_name k = name
                                    then k\<lparr>price_inflation := new_infl\<rparr> else k)
                            (procedure_categories (cd_config cd))\<rparr>\<rparr>))"

definition set_varpct :: "cdict \<Rightarrow> string \<Rightarrow> real \<Rightarrow> py_error + cdict" where
  "set_varpct cd var_name new_pct =
     (if cd_loaded cd \<and> variable_opex (cd_config cd) \<noteq> [] then Inl TypeError
      else Inr (cd\<lparr>cd_config :=
                     (cd_config cd)
                       \<lparr>variable_opex :=
                          map (\<lambda>v. if ve_name v = var_name
                                    then v\<lparr>pct_of_revenue := new_pct\<rparr> else v)
                            (variable_opex (cd_config cd))\<rparr>\<rparr>))"

text \<open>Sequencing of steps that may raise: the first exception ends the computation.\<close>

definition and_then :: "py_error + 'a \<Rightarrow> ('a \<Rightarrow> py_error + 'b) \<Rightarrow> py_error + 'b" where
  "and_then m f = (case m of Inl e \<Rightarrow> Inl e | Inr x \<Rightarrow> f x)"

text \<open>
  The draws of one iteration, each from the global generator of \<open>np.random\<close> in the given
  state and with the constant positive scale of the source, applied to the dictionary.
  The exit multiple is drawn only under the exit method.
\<close>

definition mc_draw_wacc ::
  "('g \<Rightarrow> real \<Rightarrow> real \<Rightarrow> real \<times> 'g) \<Rightarrow> ModelConfig \<Rightarrow> cdict \<Rightarrow> 'g \<Rightarrow> py_error + cdict \<times> 'g" where
  "mc_draw_wacc normal base c g =
     (case normal g (wacc base) 0.0075 of
        (wacc_draw, g') \<Rightarrow>
          and_then (set_wacc c (np_clip wacc_draw 0.07 0.20)) (\<lambda>c'. Inr (c', g')))"

definition mc_draw_exit ::
  "('g \<Rightarrow> real \<Rightarrow> real \<Rightarrow> real \<times> 'g) \<Rightarrow> cdict \<Rightarrow> 'g \<Rightarrow> py_error + cdict \<times> 'g" where
  "mc_draw_exit normal c g =
     and_then (cdict_terminal c) (\<lambda>term1.
       if terminal_method term1 = ''exit''
       then and_then (cdict_terminal c) (\<lambda>term2.
              case normal g (exit_ebitda_multiple term2) 1.2 of
                (exit_draw, g') \<Rightarrow>
                  and_then (set_exit c (np_clip exit_draw 6.0 14.0)) (\<lambda>c'. Inr (c', g')))
       else Inr (c, g))"

definition mc_draw_util ::
  "('g \<Rightarrow> real \<Rightarrow> real \<Rightarrow> real \<times> 'g) \<Rightarrow> cdict \<Rightarrow> 'g \<Rightarrow> py_error + cdict \<times> 'g" where
  "mc_draw_util normal c g =
     (case normal g 0.80 0.05 of
        (util_draw, g') \<Rightarrow>
          and_then (set_util c ''Injector (NP/PA/RN)'' (np_clip util_draw 0.60 0.92))
            (\<lambda>c'. Inr (c', g')))"

definition mc_draw_infl ::
  "('g \<Rightarrow> real \<Rightarrow> real \<Rightarrow> real \<times> 'g) \<Rightarrow> cdict \<Rightarrow> 'g \<Rightarrow> py_error + cdict \<times> 'g" where
  "mc_draw_infl normal c g =
     (case normal g 0.03 0.01 of
        (infl_draw, g') \<Rightarrow>
          and_then (set_cat_infl c ''Injectables'' (np_clip infl_draw 0.005 0.06))
            (\<lambda>c'. Inr (c', g')))"

definition mc_draw_mkt ::
  "('g \<Rightarrow> real \<Rightarrow> real \<Rightarrow> real \<times> 'g) \<Rightarrow> cdict \<Rightarrow> 'g \<Rightarrow> py_error + cdict \<times> 'g" where
  "mc_draw_mkt normal c g =
     (case normal g 0.08 0.015 of
        (mkt_draw, g') \<Rightarrow>
          and_then (set_varpct c ''Marketing'' (np_clip mkt_draw 0.04 0.14))
            (\<lambda>c'. Inr (c', g')))"

text \<open>\<open>mc = _load_config_obj(c)\<close>, then \<open>run_forecast\<close>; the sampled enterprise value.\<close>

definition mc_value :: "cdict \<Rightarrow> py_error + real" where
  "mc_value c =
     and_then (load_config_obj c) (\<lambda>loaded.
       and_then (run_forecast (fst loaded)) (\<lambda>res. Inr (enterprise_value (snd res))))"

text \<open>
  One iteration of the loop, from the state \<open>g\<close> of the generator: the sampled enterprise
  value and the next state.
\<close>

definition mc_iteration ::
  "('g \<Rightarrow> real \<Rightarrow> real \<Rightarrow> real \<times> 'g) \<Rightarrow> ModelConfig \<Rightarrow> 'g \<Rightarrow> py_error + real \<times> 'g" where
  "mc_iteration normal base g =
     and_then (mc_draw_wacc normal base (fresh_cdict base) g) (\<lambda>s1.
     and_then (mc_draw_exit normal (fst s1) (snd s1)) (\<lambda>s2.
     and_then (mc_draw_util normal (fst s2) (snd s2)) (\<lambda>s3.
     and_then (mc_draw_infl normal (fst s3) (snd s3)) (\<lambda>s4.
     and_then (mc_draw_mkt normal (fst s4) (snd s4)) (\<lambda>s5.
     and_then (mc_value (fst s5)) (\<lambda>ev. Inr (ev, snd s5)))))))"

fun mc_loop ::
  "('g \<Rightarrow> real \<Rightarrow> real \<Rightarrow> real \<times> 'g) \<Rightarrow> ModelConfig \<Rightarrow> nat \<Rightarrow> 'g \<Rightarrow> py_error + real list" where
  "mc_loop normal base 0 g = Inr []"
| "mc_loop normal base (Suc k) g =
     (case mc_iteration normal base g of
        Inl e \<Rightarrow> Inl e
      | Inr (ev, g') \<Rightarrow>
          (case mc_loop normal base k g' of
             Inl e \<Rightarrow> Inl e
           | Inr evs \<Rightarrow> Inr (ev # evs)))"

text \<open>
  The command \<open>mc\<close>, up to the list \<open>evs\<close> of sampled enterprise values (the percentiles
  and the histogram printed afterwards are computed from it).  \<open>ambient\<close> is the state of
  numpy's global generator when the command starts; \<open>np_seed\<close> is the state that
  \<open>np.random.seed\<close> installs, which rejects a seed outside \<open>0 .. 2**32 - 1\<close>.  The base
  case is valued once before the loop.
\<close>

definition monte_carlo ::
  "(int \<Rightarrow> 'g) \<Rightarrow> ('g \<Rightarrow> real \<Rightarrow> real \<Rightarrow> real \<times> 'g) \<Rightarrow> 'g \<Rightarrow> ModelConfig \<Rightarrow> int \<Rightarrow> int option \<Rightarrow>
   py_error + real list" where
  "monte_carlo np_seed normal ambient base iterations seed =
     (case (case seed of
              None \<Rightarrow> Inr ambient
            | Some sd \<Rightarrow> if sd < 0 \<or> sd \<ge> 2 ^ 32 then Inl ValueError else Inr (np_seed sd)) of
        Inl e \<Rightarrow> Inl e
      | Inr g \<Rightarrow>
          (case run_forecast base of
             Inl e \<Rightarrow> Inl e
           | Inr (base_rows, base_meta) \<Rightarrow> mc_loop normal base (nat iterations) g))"

section \<open>The DCF of the modelling module (\<open>summit3/summit3.md\<close>)\<close>

text \<open>
  The Python module \<open>modeling\<close> of the manual-input modeller: a five-year DCF on a
  revenue projection, with depreciation at 2% of revenue and a working-capital charge on
  the growth of revenue.
\<close>

record YearRecord =
  yr_year :: int
  yr_revenue :: real
  raw_ebitda :: real
  owner_comp_addback :: real
  nonrecurring_addbacks :: real
  other_addbacks :: real

record Balance =
  assets_cash_ar :: real
  assets_ppe_net :: real
  other_assets :: real
  liabilities_ap :: real
  liabilities_debt :: real
  other_liabilities :: real

record Assumptions =
  synergy_method :: string
  synergy_value :: real
  asm_wacc :: real
  terminal_growth :: real
  asm_tax_rate :: real
  capex_pct_revenue :: real
  wc_pct_delta_revenue :: real
  multiple_base :: real
  multiple_min :: real
  multiple_max :: real

definition adjusted_ebitda :: "YearRecord \<Rightarrow> real" where
  "adjusted_ebitda y =
     raw_ebitda y + owner_comp_addback y + nonrecurring_addbacks y + other_addbacks y"

definition to_equity :: "real \<Rightarrow> Balance \<Rightarrow> real" where
  "to_equity ev bal =
     (let assets = assets_cash_ar bal + assets_ppe_net bal + other_assets bal;
          liabilities = liabilities_ap bal + liabilities_debt bal + other_liabilities bal
      in ev + assets - liabilities)"

text \<open>\<open>np.linspace(a, b, n)\<close>: \<open>n\<close> evenly spaced values from \<open>a\<close> to \<open>b\<close> inclusive.\<close>

definition np_linspace :: "real \<Rightarrow> real \<Rightarrow> nat \<Rightarrow> real list" where
  "np_linspace a b n =
     (if n = 1 then [a] else map (\<lambda>i. a + real i * ((b - a) / real (n - 1))) [0..<n])"

text \<open>The values that the loop of \<open>dcf_from_inputs\<close> computes in one forecast year.\<close>

record year_flow =
  f_rev :: real
  f_ebitda :: real
  f_da :: real
  f_ebit :: real
  f_nopat :: real
  f_cfo :: real
  f_capex :: real
  f_wc :: real
  f_fcf :: real

text \<open>
  The loop \<open>for i in range(horizon)\<close> over the projected revenues and the margins, which
  are \<open>horizon\<close> many; \<open>proj_rev[i]\<close> raises \<open>IndexError\<close> when the projection is shorter.
  \<open>revenue_prev\<close> starts at the revenue of the last historical year.
\<close>

fun fcf_loop :: "Assumptions \<Rightarrow> real list \<Rightarrow> real list \<Rightarrow> real \<Rightarrow> py_error + year_flow list" where
  "fcf_loop asm revs [] revenue_prev = Inr []"
| "fcf_loop asm [] (m # ms) revenue_prev = Inl IndexError"
| "fcf_loop asm (rv # revs) (m # ms) revenue_prev =
     (let ebitda = rv * m;
          da = 0.02 * rv;
          ebit = ebitda - da;
          nopat = ebit * (1 - asm_tax_rate asm);
          cfo = nopat + da;
          capex = capex_pct_revenue asm * rv;
          wc = wc_pct_delta_revenue asm * max 0 (rv - revenue_prev);
          fcf_i = cfo - capex - wc
      in case fcf_loop asm revs ms rv of
           Inl e \<Rightarrow> Inl e
         | Inr flows \<Rightarrow>
             Inr (\<lparr> f_rev = rv, f_ebitda = ebitda, f_da = da, f_ebit = ebit, f_nopat = nopat,
                    f_cfo = cfo, f_capex = capex, f_wc = wc, f_fcf = fcf_i \<rparr> # flows))"

record dcf_result =
  proj_revenue :: "real list"
  proj_margins :: "real list"
  dcf_fcf :: "real list"
  pv_fcf :: "real list"
  pv_fcf_total :: real
  dcf_terminal_value :: real
  pv_terminal_value :: real
  dcf_enterprise_value :: real
  dcf_equity_value :: real

text \<open>
  \<open>dcf_from_inputs\<close>.  The revenue projection \<open>proj_rev\<close> that \<open>project_revenue_arima\<close>
  returns (an ARIMA forecast, or compound growth at the historical rate) is taken as
  given, in place of the argument \<open>years\<close>, which only that call reads.  \<open>records[-1]\<close>
  and \<open>fcf[-1]\<close> raise \<open>IndexError\<close> on an empty list, \<open>np.linspace\<close> raises \<open>ValueError\<close>
  for a negative count, and the terminal value divides by \<open>wacc - terminal_growth\<close> with
  no guard.
\<close>

definition dcf_margins :: "YearRecord list \<Rightarrow> int \<Rightarrow> real option \<Rightarrow> real option \<Rightarrow> real list" where
  "dcf_margins records horizon base_margin margin_trend_to =
     (let lst = last records;
          last_adj = adjusted_ebitda lst;
          bm = (case base_margin of None \<Rightarrow> last_adj / max 1 (yr_revenue lst) | Some b \<Rightarrow> b);
          mt = (case margin_trend_to of None \<Rightarrow> bm | Some m \<Rightarrow> m)
      in np_linspace bm mt (nat horizon))"

text \<open>The part of \<open>dcf_from_inputs\<close> after the discount factors: the terminal value and the result.\<close>

definition dcf_terminal ::
  "Balance \<Rightarrow> Assumptions \<Rightarrow> real list \<Rightarrow> real list \<Rightarrow> real list \<Rightarrow> real list \<Rightarrow>
   py_error + dcf_result" where
  "dcf_terminal balance asm proj_rev margins fcf disc =
     (let w = asm_wacc asm;
          pv = map (\<lambda>(x, d). x * d) (zip fcf disc);
          tot = sum_list pv
      in if fcf = [] then Inl IndexError
         else if w - terminal_growth asm = 0 then Inl ZeroDivisionError
         else
           (let tv = last fcf * (1 + terminal_growth asm) / (w - terminal_growth asm);
                pv_tv = tv * last disc;
                ev = tot + pv_tv;
                equity = to_equity ev balance
            in Inr \<lparr> proj_revenue = proj_rev, proj_margins = margins, dcf_fcf = fcf,
                     pv_fcf = pv, pv_fcf_total = tot, dcf_terminal_value = tv,
                     pv_terminal_value = pv_tv, dcf_enterprise_value = ev,
                     dcf_equity_value = equity \<rparr>))"

definition dcf_from_inputs ::
  "real list \<Rightarrow> YearRecord list \<Rightarrow> Balance \<Rightarrow> Assumptions \<Rightarrow> int \<Rightarrow> real option \<Rightarrow> real option \<Rightarrow>
   py_error + dcf_result" where
  "dcf_from_inputs proj_rev records balance asm horizon base_margin margin_trend_to =
     (if records = [] then Inl IndexError
      else if horizon < 0 then Inl ValueError
      else
        and_then
          (fcf_loop asm proj_rev (dcf_margins records horizon base_margin margin_trend_to)
             (yr_revenue (last records)))
          (\<lambda>flows.
             and_then (discount_factors (asm_wacc asm) (nat horizon))
               (\<lambda>disc.
                  dcf_terminal balance asm proj_rev
                    (dcf_margins records horizon base_margin margin_trend_to)
                    (map f_fcf flows) disc)))"

section \<open>Example inputs\<close>

text \<open>
  A one-clinic configuration with membership revenue only, two forecast years and the
  exit-multiple method.  Half of the members leave in each year, so revenue falls from 600
  to 240; receivables are a fifth of revenue (73 days of 365).
\<close>

definition example_config :: ModelConfig where
  "example_config =
     \<lparr> cfg_name = ''Example'', currency = ''USD'', forecast_years = 2,
       corporate_tax_rate = 0.25, inflation = 0,
       procedure_categories = [], provider_types = [], equipment_assets = [],
       fixed_opex = [\<lparr> fe_name = ''Rent'', amount_year1 = 200, growth = 0 \<rparr>],
       variable_opex = [],
       membership = \<lparr> monthly_fee = 10, members_per_clinic_year1 = 10, members_growth = 0,
                      annual_churn = 0.5 \<rparr>,
       retail = \<lparr> pct_of_service_revenue = 0, gross_margin = 0 \<rparr>,
       working_capital = \<lparr> dso_days = 73, dio_days = 0, dpo_days = 0,
                           membership_deferral_months = 0 \<rparr>,
       wacc_settings = \<lparr> risk_free_rate = 0.04, equity_risk_premium = 0.06, w_beta = 1,
                         size_premium = 0, specific_risk = 0, pre_tax_cost_of_debt = 0,
                         target_debt_to_total_cap = 0, w_tax_rate = 0 \<rparr>,
       terminal = \<lparr> terminal_method = ''exit'', gordon_growth = 0.02,
                    exit_ebitda_multiple = 5 \<rparr>,
       expansion = \<lparr> clinics_year1 = 1, new_clinics_per_year = [] \<rparr>,
       maintenance_capex_pct_of_revenue = 0, net_debt = 100, cash_minimum = 0 \<rparr>"




text \<open>The rows that \<open>run_forecast\<close> computes for \<open>example_config\<close>.\<close>

definition example_rows :: "forecast_row list" where
  "example_rows =
     [\<lparr> r_year = 1, r_clinics = 1, r_service_revenue = 0, r_membership_revenue = 600,
         r_retail_revenue = 0, r_total_revenue = 600, r_material_costs = 0, r_retail_cogs = 0,
         r_commission_costs = 0, r_provider_fixed_comp = 0, r_gross_profit = 600,
         r_fixed_opex = 200, r_variable_opex = 0, r_ebitda = 400, r_depreciation = 0,
         r_ebit = 400, r_nopat = 300, r_capex = 0, r_delta_nwc = 120, r_ufcf = 180,
         r_ar = 120, r_inv = 0, r_ap = 0, r_deferred_rev = 0 \<rparr>,
      \<lparr> r_year = 2, r_clinics = 1, r_service_revenue = 0, r_membership_revenue = 240,
         r_retail_revenue = 0, r_total_revenue = 240, r_material_costs = 0, r_retail_cogs = 0,
         r_commission_costs = 0, r_provider_fixed_comp = 0, r_gross_profit = 240,
         r_fixed_opex = 200, r_variable_opex = 0, r_ebitda = 40, r_depreciation = 0,
         r_ebit = 40, r_nopat = 30, r_capex = 0, r_delta_nwc = - 72, r_ufcf = 102,
         r_ar = 48, r_inv = 0, r_ap = 0, r_deferred_rev = 0 \<rparr>]"


text \<open>
  A configuration with all else fixed and a WACC equal to the given rate: equity only,
  with no premium over the risk-free rate.
\<close>

definition with_discount_rate :: "real \<Rightarrow> ModelConfig \<Rightarrow> ModelConfig" where
  "with_discount_rate r cfg =
     cfg\<lparr>wacc_settings :=
           \<lparr> risk_free_rate = r, equity_risk_premium = 0, w_beta = 0, size_premium = 0,
             specific_risk = 0, pre_tax_cost_of_debt = 0, target_debt_to_total_cap = 0,
             w_tax_rate = 0 \<rparr>\<rparr>"

text \<open>The example with a rent of 1000, which no year's revenue covers.\<close>

definition loss_config :: ModelConfig where
  "loss_config =
     example_config\<lparr>fixed_opex := [\<lparr> fe_name = ''Rent'', amount_year1 = 1000, growth = 0 \<rparr>]\<rparr>"

text \<open>
  Statement data of the EPV application: three reporting dates, one in each of the years
  2021 to 2023, with revenue 900, 1000 and 1100 at an EBIT margin of 10%, depreciation of
  20 and capital expenditure of 30 a year, an empty balance sheet, no cash or debt, one
  share and no price.
\<close>

definition example_fin :: Financials where
  "example_fin =
     \<lparr> fin_income =
         \<lparr> fr_columns = [2021, 2022, 2023],
           fr_rows = [(''Total Revenue'', [Num 900, Num 1000, Num 1100]),
                      (''EBIT'', [Num 90, Num 100, Num 110])] \<rparr>,
       fin_balance = \<lparr> fr_columns = [], fr_rows = [] \<rparr>,
       fin_cashflow =
         \<lparr> fr_columns = [2021, 2022, 2023],
           fr_rows = [(''Depreciation'', [Num 20, Num 20, Num 20]),
                      (''Capital Expenditures'', [Num (- 30), Num (- 30), Num (- 30)])] \<rparr>,
       fin_cash = None, fin_total_debt = None, fin_shares = Some 1, fin_price = None \<rparr>"

text \<open>
  Inputs of the EPV application: the median of five years, maintenance capital
  expenditure equal to depreciation, a tax rate of 20% and a WACC override of 10%.  With
  \<open>example_fin\<close> the earnings power after tax is 80 and the value of operations 800.
\<close>

definition example_inputs :: EPVInputs where
  "example_inputs =
     \<lparr> years = 5, margin_method = ''median'', normalized_margin = None, tax_rate = 0.2,
       rf_rate = 0.04, mrp = 0.05, beta = 1, cost_of_debt = 0.05, use_capm = True,
       equity_weight = 1, maintenance_method = ''depr_factor'', maint_factor = 1,
       capital_intensity_years = 5, excess_cash_pct = 1, rd_capitalize = False, rd_years = 5,
       sga_capitalize = False, sga_years = 5, other_adjustments = 0,
       use_manual_shares = False, manual_shares = None, use_manual_price = False,
       manual_price = None, wacc_override = Some 0.1 \<rparr>"

text \<open>
  The same company with cash of 40, debt of 100 and long-term investments of 25 on its
  balance sheet.
\<close>

definition levered_fin :: Financials where
  "levered_fin =
     example_fin
       \<lparr> fin_balance :=
           \<lparr> fr_columns = [2021, 2022, 2023],
             fr_rows = [(''Long Term Investments'', [Num 10, Num 20, Num 25])] \<rparr>,
         fin_cash := Some 40, fin_total_debt := Some 100 \<rparr>"

text \<open>The same company with an operating loss of 10% of revenue in every year.\<close>

definition loss_fin :: Financials where
  "loss_fin =
     example_fin
       \<lparr> fin_income :=
           \<lparr> fr_columns = [2021, 2022, 2023],
             fr_rows = [(''Total Revenue'', [Num 900, Num 1000, Num 1100]),
                        (''EBIT'', [Num (- 90), Num (- 100), Num (- 110)])] \<rparr> \<rparr>"

text \<open>
  Inputs without a WACC override and with a cost of equity of 2%, all equity: the WACC
  computed is 2%.
\<close>

definition low_wacc_inputs :: EPVInputs where
  "low_wacc_inputs =
     example_inputs \<lparr> rf_rate := 0.01, mrp := 0.01, wacc_override := None \<rparr>"



text \<open>What \<open>compute_epv\<close> returns for \<open>example_fin\<close> and \<open>example_inputs\<close>.\<close>

definition example_outputs :: EPVOutputs where
  "example_outputs =
     \<lparr> out_normalized_revenue = Num 1000, out_normalized_margin = Num (1 / 10),
       out_normalized_ebit = Num 100, out_normalized_da = Num 20,
       out_maintenance_capex = Num 20, out_epo_after_tax = Num 80, out_wacc = 1 / 10,
       out_value_operations = Num 800, out_cash_adjusted = 0,
       out_non_operating_assets = Num 0, out_debt = 0, out_other_adjustments = 0,
       out_equity_value = Num 800, out_shares = Some 1, out_value_per_share = Num 800,
       out_price = None, out_upside = NaN \<rparr>"

text \<open>What it returns for \<open>levered_fin\<close> and \<open>example_inputs\<close>.\<close>

definition levered_outputs :: EPVOutputs where
  "levered_outputs =
     example_outputs
       \<lparr> out_cash_adjusted := 40, out_non_operating_assets := Num 25, out_debt := 100,
         out_equity_value := Num 765, out_value_per_share := Num 765 \<rparr>"

text \<open>
  What it returns for \<open>low_wacc_inputs\<close>: for \<open>example_fin\<close> the earnings of 80 are
  capitalised at 3%, and for \<open>loss_fin\<close> the earnings are -80 and the value of operations
  is zero.
\<close>

definition floored_outputs :: EPVOutputs where
  "floored_outputs =
     example_outputs
       \<lparr> out_wacc := 3 / 100, out_value_operations := Num (8000 / 3),
         out_equity_value := Num (8000 / 3), out_value_per_share := Num (8000 / 3) \<rparr>"

definition loss_outputs :: EPVOutputs where
  "loss_outputs =
     example_outputs
       \<lparr> out_normalized_margin := Num (- (1 / 10)), out_normalized_ebit := Num (- 100),
         out_epo_after_tax := Num (- 80), out_wacc := 3 / 100, out_value_operations := Num 0,
         out_equity_value := Num 0, out_value_per_share := NaN \<rparr>"

text \<open>The valuation that \<open>run_forecast\<close> returns for \<open>example_config\<close>.\<close>

definition example_meta :: valuation_meta where
  "example_meta =
     \<lparr> meta_wacc = 1 / 10, pv_flows = 30000 / 121, terminal_value = 200,
       pv_terminal = 20000 / 121, enterprise_value = 50000 / 121,
       equity_value = 37900 / 121 \<rparr>"


text \<open>
  A stand-in for numpy's generator in examples: the state counts the draws, and the draw in
  state \<open>g\<close> lies \<open>g\<close> standard deviations above the mean.
\<close>

definition counting_normal :: "nat \<Rightarrow> real \<Rightarrow> real \<Rightarrow> real \<times> nat" where
  "counting_normal g loc scale = (loc + scale * real g, Suc g)"

text \<open>A distribution of the normalized margin, as the application passes it.\<close>

definition example_dists :: "(float_attr \<times> dist_spec) list" where
  "example_dists =
     [(A_normalized_margin,
       \<lparr> d_mu = Some 0.1, d_sigma = Some 0.001, d_min = Some (- 0.2), d_max = Some 0.6 \<rparr>)]"


text \<open>
  Inputs of \<open>dcf_from_inputs\<close>: a last historical year with revenue 1000 and EBITDA 300, and
  a projection of three years in which revenue rises to 1100, falls to 1000 and rises to
  1200.
\<close>

definition example_records :: "YearRecord list" where
  "example_records =
     [\<lparr> yr_year = 2024, yr_revenue = 1000, raw_ebitda = 300, owner_comp_addback = 0,
         nonrecurring_addbacks = 0, other_addbacks = 0 \<rparr>]"

definition example_assumptions :: Assumptions where
  "example_assumptions =
     \<lparr> synergy_method = ''margin_uplift'', synergy_value = 0, asm_wacc = 0.18,
       terminal_growth = 0.03, asm_tax_rate = 0.26, capex_pct_revenue = 0.03,
       wc_pct_delta_revenue = 0.01, multiple_base = 4.5, multiple_min = 3.0,
       multiple_max = 6.0 \<rparr>"

definition example_projection :: "real list" where
  "example_projection = [1100, 1000, 1200]"



definition example_balance :: Balance where
  "example_balance =
     \<lparr> assets_cash_ar = 50, assets_ppe_net = 0, other_assets = 0, liabilities_ap = 0,
       liabilities_debt = 20, other_liabilities = 0 \<rparr>"

definition example_dcf :: dcf_result where
  "example_dcf =
     \<lparr> proj_revenue = [1100, 1000, 1200], proj_margins = [3 / 10, 3 / 10, 3 / 10],
       dcf_fcf = [5398 / 25, 986 / 5, 5866 / 25],
       pv_fcf = [10796 / 59, 493000 / 3481, 29330000 / 205379],
       pv_fcf_total = 95997876 / 205379, dcf_terminal_value = 604198 / 375,
       pv_terminal_value = 604198000 / 616137, dcf_enterprise_value = 15121892 / 10443,
       dcf_equity_value = 15121892 / 10443 + 30 \<rparr>"


section \<open>Vocabulary of the statements\<close>



text \<open>
  The sum \<open>pv_flows\<close> of \<open>run_forecast\<close> as a function of the discount rate and the rows:
  the cash flow of year \<open>i\<close> times \<open>1 / (1 + w) ** i\<close>, years counted from 1.
\<close>

definition present_value_of_flows :: "real \<Rightarrow> forecast_row list \<Rightarrow> real" where
  "present_value_of_flows w rows =
     sum_list (map (\<lambda>(cf, df). cf * df)
       (zip (map r_ufcf rows) (map (\<lambda>i. 1 / (1 + w) ^ i) [1..<Suc (length rows)])))"


section \<open>Theorems\<close>

subsection \<open>Clipping\<close>

lemma max_min_bounds:
  fixes lo hi x :: real
  assumes "lo \<le> hi"
  shows "lo \<le> max lo (min hi x)" and "max lo (min hi x) \<le> hi"
  using assms by (simp_all add: max_def min_def)

text \<open>
  Claim C10.  For each of the three size classes and every market-data snapshot, supplied
  as the argument or taken from the service when none is supplied, \<open>getRealTimeWACC\<close>
  returns a rate between 0.08 and 0.18 inclusive.
\<close>

theorem getRealTimeWACC_range:
  "0.08 \<le> getRealTimeWACC current sz marketData \<and> getRealTimeWACC current sz marketData \<le> 0.18"
  unfolding getRealTimeWACC_def Let_def
  by (intro conjI max_min_bounds) simp_all

subsection \<open>Market multiples\<close>




















subsection \<open>Earnings power value\<close>

lemma compute_epv_fields:
  assumes "compute_epv fin inputs = Inr out"
  shows "out_wacc out =
           max 0.03 (compute_wacc (rf_rate inputs) (mrp inputs) (beta inputs) (cost_of_debt inputs)
                       (np_clip (tax_rate inputs) 0 0.5) (equity_weight inputs)
                       (wacc_override inputs) (use_capm inputs))"
    and "out_value_operations out =
           ddiv (py_max (Num 0) (out_epo_after_tax out)) (Num (out_wacc out))"
    and "out_equity_value out =
           dadd (dsub (dadd (dadd (out_value_operations out) (Num (out_cash_adjusted out)))
                         (out_non_operating_assets out)) (Num (out_debt out)))
             (Num (out_other_adjustments out))"
    and "out_debt out = or_zero (fin_total_debt fin)"
    and "out_cash_adjusted out = or_zero (fin_cash fin) * excess_cash_pct inputs"
    and "out_other_adjustments out = other_adjustments inputs"
    and "\<exists>rd sga. rd_capital_of fin inputs = Inr rd \<and> sga_capital_of fin inputs = Inr sga \<and>
           out_non_operating_assets out = dadd (lti_latest (fin_balance fin)) (dadd rd sga)"
    and "out_epo_after_tax out =
           dmul (dsub (dadd (out_normalized_ebit out) (out_normalized_da out))
                   (out_maintenance_capex out))
             (Num (1 - np_clip (tax_rate inputs) 0 0.5))"
  using assms unfolding compute_epv_def Let_def
  by (auto split: prod.splits sum.splits simp del: max.bounded_iff min.bounded_iff
        split del: if_split)

lemma capitalize_loop_returns:
  "amort_years \<noteq> 0 \<Longrightarrow> \<exists>v. capitalize_loop amort_years i vs cap = Inr v"
  by (induction vs arbitrary: i cap) (simp_all add: Let_def)

lemma capitalize_series_returns:
  "amort_years \<noteq> 0 \<Longrightarrow> \<exists>v. capitalize_series ser yrs amort_years = Inr v"
  by (simp add: capitalize_series_def Let_def capitalize_loop_returns split: option.splits)

lemma compute_epv_returns:
  assumes "rd_capitalize inputs \<longrightarrow> rd_years inputs \<noteq> 0"
    and "sga_capitalize inputs \<longrightarrow> sga_years inputs \<noteq> 0"
  shows "\<exists>out. compute_epv fin inputs = Inr out"
proof -
  obtain rd where rd: "rd_capital_of fin inputs = Inr rd"
    using assms(1) capitalize_series_returns[of "rd_years inputs"
        "get_line (fin_income fin) rd_names" "years inputs"]
    unfolding rd_capital_of_def by (cases "rd_capitalize inputs") auto
  obtain sga where sga: "sga_capital_of fin inputs = Inr sga"
    using assms(2) capitalize_series_returns[of "sga_years inputs"
        "get_line (fin_income fin) sga_names" "years inputs"]
    unfolding sga_capital_of_def by (cases "sga_capitalize inputs") auto
  show ?thesis
    unfolding compute_epv_def Let_def rd sga
    by (simp split: prod.splits)
qed

lemma value_operations_nonneg:
  assumes "0 < w"
  shows "dle (Num 0) (ddiv (py_max (Num 0) e) (Num w))"
  using assms by (cases e) (simp_all add: py_max_def)

lemma value_operations_finite:
  assumes "0 < w"
  shows "ddiv (py_max (Num 0) (Num x)) (Num w) = Num (max 0 x / w)"
  using assms by (simp add: py_max_def max_def)

lemma compute_epv_example: "compute_epv example_fin example_inputs = Inr example_outputs"
  by code_simp

lemma compute_epv_levered: "compute_epv levered_fin example_inputs = Inr levered_outputs"
  by code_simp

lemma compute_epv_floored: "compute_epv example_fin low_wacc_inputs = Inr floored_outputs"
  by code_simp

lemma compute_epv_loss: "compute_epv loss_fin low_wacc_inputs = Inr loss_outputs"
  by code_simp

lemma low_wacc_computed:
  "compute_wacc (rf_rate low_wacc_inputs) (mrp low_wacc_inputs) (beta low_wacc_inputs)
     (cost_of_debt low_wacc_inputs) (np_clip (tax_rate low_wacc_inputs) 0 0.5)
     (equity_weight low_wacc_inputs) (wacc_override low_wacc_inputs) (use_capm low_wacc_inputs) =
   0.02"
  by code_simp

lemma epv_equity_finite:
  assumes "out_equity_value out =
           dadd (dsub (dadd (dadd (out_value_operations out) (Num (out_cash_adjusted out)))
                         (out_non_operating_assets out)) (Num (out_debt out)))
             (Num (out_other_adjustments out))"
    and "out_value_operations out = Num v" and "out_non_operating_assets out = Num a"
  shows "out_equity_value out =
           Num (v - (out_debt out - out_cash_adjusted out) + a + out_other_adjustments out)"
  using assms by (simp add: dsub_def)

text \<open>
  Claim C9.  Whenever \<open>compute_epv\<close> returns, the WACC it capitalises with is the larger
  of 0.03 and the WACC that \<open>compute_wacc\<close> computes from the inputs (with the tax rate
  clipped to 0 .. 0.5); the value of operations is \<open>max(0, after-tax earnings power)\<close>
  divided by that WACC, which for finite earnings \<open>e\<close> is the number \<open>max 0 e / wacc\<close>
  and for NaN earnings is zero; and the value of operations is not negative and not NaN.
  \<open>compute_epv\<close> returns for every input whose amortisation periods are not zero where
  capitalisation is switched on (a zero period makes \<open>capitalize_series\<close> divide by zero
  before the valuation is reached).
\<close>

theorem compute_epv_floor:
  "(compute_epv fin inputs = Inr out \<longrightarrow>
      out_wacc out =
        max 0.03 (compute_wacc (rf_rate inputs) (mrp inputs) (beta inputs) (cost_of_debt inputs)
                    (np_clip (tax_rate inputs) 0 0.5) (equity_weight inputs)
                    (wacc_override inputs) (use_capm inputs)) \<and>
      0.03 \<le> out_wacc out \<and>
      out_epo_after_tax out =
        dmul (dsub (dadd (out_normalized_ebit out) (out_normalized_da out))
                (out_maintenance_capex out))
          (Num (1 - np_clip (tax_rate inputs) 0 0.5)) \<and>
      out_value_operations out =
        ddiv (py_max (Num 0) (out_epo_after_tax out)) (Num (out_wacc out)) \<and>
      (out_epo_after_tax out = Num e \<longrightarrow>
         out_value_operations out = Num (max 0 e / out_wacc out)) \<and>
      dle (Num 0) (out_value_operations out)) \<and>
   ((rd_capitalize inputs \<longrightarrow> rd_years inputs \<noteq> 0) \<and>
    (sga_capitalize inputs \<longrightarrow> sga_years inputs \<noteq> 0) \<longrightarrow>
      (\<exists>out'. compute_epv fin inputs = Inr out'))"
proof (intro conjI impI)
  assume r: "compute_epv fin inputs = Inr out"
  show "out_wacc out =
        max 0.03 (compute_wacc (rf_rate inputs) (mrp inputs) (beta inputs) (cost_of_debt inputs)
                    (np_clip (tax_rate inputs) 0 0.5) (equity_weight inputs)
                    (wacc_override inputs) (use_capm inputs))"
    by (rule compute_epv_fields(1)[OF r])
  show w: "0.03 \<le> out_wacc out"
    unfolding compute_epv_fields(1)[OF r] by simp
  show "out_epo_after_tax out =
        dmul (dsub (dadd (out_normalized_ebit out) (out_normalized_da out))
                (out_maintenance_capex out))
          (Num (1 - np_clip (tax_rate inputs) 0 0.5))"
    by (rule compute_epv_fields(8)[OF r])
  show v: "out_value_operations out =
        ddiv (py_max (Num 0) (out_epo_after_tax out)) (Num (out_wacc out))"
    by (rule compute_epv_fields(2)[OF r])
  have pos: "0 < out_wacc out" using w by simp
  show "dle (Num 0) (out_value_operations out)"
    unfolding v by (rule value_operations_nonneg[OF pos])
  assume "out_epo_after_tax out = Num e"
  then show "out_value_operations out = Num (max 0 e / out_wacc out)"
    using v value_operations_finite[OF pos, of e] by simp
next
  assume "(rd_capitalize inputs \<longrightarrow> rd_years inputs \<noteq> 0) \<and>
    (sga_capitalize inputs \<longrightarrow> sga_years inputs \<noteq> 0)"
  then show "\<exists>out'. compute_epv fin inputs = Inr out'"
    using compute_epv_returns[of inputs fin] by blast
qed

theorem compute_epv_floor_witness:
  "compute_epv example_fin low_wacc_inputs = Inr floored_outputs \<and>
   out_wacc floored_outputs = max 0.03 0.02 \<and>
   out_epo_after_tax floored_outputs = Num 80 \<and>
   out_value_operations floored_outputs = Num (max 0 80 / out_wacc floored_outputs) \<and>
   out_value_operations floored_outputs = Num (8000 / 3) \<and>
   compute_epv loss_fin low_wacc_inputs = Inr loss_outputs \<and>
   out_wacc loss_outputs = max 0.03 0.02 \<and>
   out_epo_after_tax loss_outputs = Num (- 80) \<and>
   out_value_operations loss_outputs = Num (max 0 (- 80) / out_wacc loss_outputs) \<and>
   dle (Num 0) (out_value_operations loss_outputs) \<and>
   \<not> rd_capitalize low_wacc_inputs \<and> \<not> sga_capitalize low_wacc_inputs"
proof -
  have a: "\<not> rd_capitalize low_wacc_inputs" "\<not> sga_capitalize low_wacc_inputs"
    by (simp_all add: low_wacc_inputs_def example_inputs_def)
  have e1: "out_epo_after_tax floored_outputs = Num 80"
    by (simp add: floored_outputs_def example_outputs_def)
  have e2: "out_epo_after_tax loss_outputs = Num (- 80)"
    by (simp add: loss_outputs_def example_outputs_def)
  note t1 = compute_epv_floor[of example_fin low_wacc_inputs floored_outputs 80,
      THEN conjunct1, rule_format, OF compute_epv_floored]
  note t2 = compute_epv_floor[of loss_fin low_wacc_inputs loss_outputs "- 80",
      THEN conjunct1, rule_format, OF compute_epv_loss]
  have w1: "out_wacc floored_outputs = max 0.03 0.02"
    using t1 unfolding low_wacc_computed by blast
  have v1: "out_value_operations floored_outputs = Num (max 0 80 / out_wacc floored_outputs)"
    using t1 e1 by blast
  have w2: "out_wacc loss_outputs = max 0.03 0.02"
    using t2 unfolding low_wacc_computed by blast
  have v2: "out_value_operations loss_outputs = Num (max 0 (- 80) / out_wacc loss_outputs)"
    using t2 e2 by blast
  have n2: "dle (Num 0) (out_value_operations loss_outputs)"
    using t2 by blast
  have 1: "out_wacc floored_outputs = max 0.03 0.02 \<and>
     out_value_operations floored_outputs = Num (max 0 80 / out_wacc floored_outputs)"
    using w1 v1 by blast
  have 2: "out_wacc loss_outputs = max 0.03 0.02 \<and>
     out_value_operations loss_outputs = Num (max 0 (- 80) / out_wacc loss_outputs) \<and>
     dle (Num 0) (out_value_operations loss_outputs)"
    using w2 v2 n2 by blast
  have 3: "out_value_operations floored_outputs = Num (8000 / 3)"
    by (simp add: floored_outputs_def example_outputs_def)
  from 1 2 3 compute_epv_floored compute_epv_loss e1 e2 a show ?thesis by blast
qed

subsection \<open>The forecast and the valuation\<close>

lemma length_forecast_loop:
  "length (forecast_loop cfg clinics dep cpx mnt members idx ys prev) = length ys"
  by (induction ys arbitrary: idx prev) (auto split: prod.splits)

lemma length_years_list: "length (years_list n) = nat n"
  by (simp add: years_list_def)

lemma length_forecast_rows: "length (forecast_rows cfg) = nat (forecast_years cfg)"
  by (simp add: forecast_rows_def length_forecast_loop length_years_list split: prod.splits)

lemma forecast_rows_nonempty: "forecast_rows cfg \<noteq> [] \<longleftrightarrow> 1 \<le> forecast_years cfg"
  using length_forecast_rows[of cfg] by (cases "forecast_rows cfg") auto

lemma run_forecast_Inr:
  assumes "run_forecast cfg = Inr (rows, meta)"
  shows "rows = forecast_rows cfg"
    and "rows \<noteq> []"
    and "meta_wacc meta = wacc cfg"
    and "terminal_value_of cfg (wacc cfg) (last rows) = Inr (terminal_value meta)"
    and "pv_terminal meta = terminal_value meta / (1 + wacc cfg) ^ length rows"
    and "enterprise_value meta = pv_flows meta + pv_terminal meta"
    and "equity_value meta = enterprise_value meta - net_debt cfg"
  using assms unfolding run_forecast_def Let_def
  by (auto split: sum.splits if_splits)

lemma run_forecast_returns:
  assumes "1 \<le> forecast_years cfg" and "wacc cfg \<noteq> - 1"
    and "terminal_method (terminal cfg) = ''gordon'' \<longrightarrow> wacc cfg \<noteq> gordon_growth (terminal cfg)"
  shows "\<exists>meta. run_forecast cfg = Inr (forecast_rows cfg, meta)"
proof -
  have ne: "forecast_rows cfg \<noteq> []" using assms(1) by (simp add: forecast_rows_nonempty)
  have w: "1 + wacc cfg \<noteq> 0" using assms(2) by linarith
  have "\<exists>tv. terminal_value_of cfg (wacc cfg) (last (forecast_rows cfg)) = Inr tv"
    using assms(3) by (cases "terminal_method (terminal cfg) = ''gordon''")
      (simp_all add: terminal_value_of_def)
  then obtain tv where tv: "terminal_value_of cfg (wacc cfg) (last (forecast_rows cfg)) = Inr tv"
    by blast
  show ?thesis
    unfolding run_forecast_def Let_def using ne w tv
    by (simp add: discount_factors_def)
qed

lemma run_forecast_eq:
  assumes "forecast_rows cfg \<noteq> []" and "wacc cfg \<noteq> - 1"
    and "terminal_value_of cfg (wacc cfg) (last (forecast_rows cfg)) = Inr tv"
  shows "run_forecast cfg =
     Inr (forecast_rows cfg,
          \<lparr> meta_wacc = wacc cfg,
            pv_flows = present_value_of_flows (wacc cfg) (forecast_rows cfg),
            terminal_value = tv,
            pv_terminal = tv / (1 + wacc cfg) ^ length (forecast_rows cfg),
            enterprise_value = present_value_of_flows (wacc cfg) (forecast_rows cfg) +
                               tv / (1 + wacc cfg) ^ length (forecast_rows cfg),
            equity_value = present_value_of_flows (wacc cfg) (forecast_rows cfg) +
                           tv / (1 + wacc cfg) ^ length (forecast_rows cfg) - net_debt cfg \<rparr>)"
proof -
  have w: "1 + wacc cfg \<noteq> 0" using assms(2) by linarith
  show ?thesis
    unfolding run_forecast_def Let_def present_value_of_flows_def using assms(1,3) w
    by (simp add: discount_factors_def)
qed

lemma wacc_example: "wacc example_config = 1 / 10"
  by (simp add: wacc_def example_config_def Let_def)

lemma forecast_rows_example: "forecast_rows example_config = example_rows"
  by code_simp

lemma run_forecast_example: "run_forecast example_config = Inr (example_rows, example_meta)"
  by code_simp



lemma dcf_from_inputs_Inr:
  assumes "dcf_from_inputs proj_rev records balance asm horizon base_margin margin_trend_to = Inr res"
  shows "dcf_enterprise_value res = pv_fcf_total res + pv_terminal_value res"
    and "dcf_equity_value res = to_equity (dcf_enterprise_value res) balance"
    and "\<exists>flows. fcf_loop asm proj_rev (dcf_margins records horizon base_margin margin_trend_to)
                    (yr_revenue (last records)) = Inr flows \<and> dcf_fcf res = map f_fcf flows"
  using assms unfolding dcf_from_inputs_def dcf_terminal_def and_then_def Let_def
  by (auto split: if_splits sum.splits)

lemma dcf_from_inputs_example:
  "dcf_from_inputs example_projection example_records example_balance example_assumptions 3
     None None = Inr example_dcf"
  by code_simp

text \<open>
  Claim C1.  For a configuration with at least one forecast year, a WACC other than -100%
  and, under the Gordon method, a WACC different from the growth rate, \<open>run_forecast\<close>
  returns; and whenever \<open>run_forecast\<close> or \<open>dcf_from_inputs\<close> returns, the enterprise
  value it reports is the sum of the present value of the cash flows and the present
  value of the terminal value.  In the reals the equation is exact; the source computes
  the enterprise value as that very sum.
\<close>

theorem dcf_additivity:
  "(1 \<le> forecast_years cfg \<and> wacc cfg \<noteq> - 1 \<and>
    (terminal_method (terminal cfg) = ''gordon'' \<longrightarrow> wacc cfg \<noteq> gordon_growth (terminal cfg)) \<longrightarrow>
      (\<exists>rows meta. run_forecast cfg = Inr (rows, meta) \<and>
         enterprise_value meta = pv_flows meta + pv_terminal meta)) \<and>
   (run_forecast cfg = Inr (rows', meta') \<longrightarrow>
      enterprise_value meta' = pv_flows meta' + pv_terminal meta') \<and>
   (dcf_from_inputs proj_rev records balance asm horizon base_margin margin_trend_to = Inr res \<longrightarrow>
      dcf_enterprise_value res = pv_fcf_total res + pv_terminal_value res)"
proof (intro conjI impI)
  assume a: "1 \<le> forecast_years cfg \<and> wacc cfg \<noteq> - 1 \<and>
    (terminal_method (terminal cfg) = ''gordon'' \<longrightarrow> wacc cfg \<noteq> gordon_growth (terminal cfg))"
  then obtain meta where m: "run_forecast cfg = Inr (forecast_rows cfg, meta)"
    using run_forecast_returns[of cfg] by blast
  from run_forecast_Inr(6)[OF m] m
  show "\<exists>rows meta. run_forecast cfg = Inr (rows, meta) \<and>
         enterprise_value meta = pv_flows meta + pv_terminal meta"
    by blast
next
  assume "run_forecast cfg = Inr (rows', meta')"
  then show "enterprise_value meta' = pv_flows meta' + pv_terminal meta'"
    by (rule run_forecast_Inr(6))
next
  assume "dcf_from_inputs proj_rev records balance asm horizon base_margin margin_trend_to = Inr res"
  then show "dcf_enterprise_value res = pv_fcf_total res + pv_terminal_value res"
    by (rule dcf_from_inputs_Inr(1))
qed

theorem dcf_additivity_witness:
  "1 \<le> forecast_years example_config \<and> wacc example_config \<noteq> - 1 \<and>
   terminal_method (terminal example_config) \<noteq> ''gordon'' \<and>
   run_forecast example_config = Inr (example_rows, example_meta) \<and>
   enterprise_value example_meta = pv_flows example_meta + pv_terminal example_meta \<and>
   dcf_from_inputs example_projection example_records example_balance example_assumptions 3
     None None = Inr example_dcf \<and>
   dcf_enterprise_value example_dcf = pv_fcf_total example_dcf + pv_terminal_value example_dcf"
proof -
  have a: "1 \<le> forecast_years example_config" by (simp add: example_config_def)
  have b: "wacc example_config \<noteq> - 1" by (simp add: wacc_example)
  have c: "terminal_method (terminal example_config) \<noteq> ''gordon''"
    by (simp add: example_config_def)
  from dcf_additivity[of example_config example_rows example_meta example_projection
      example_records example_balance example_assumptions 3 None None example_dcf]
    a b c run_forecast_example dcf_from_inputs_example
  show ?thesis by blast
qed

subsection \<open>The equity bridge\<close>

text \<open>
  Claim C5, as the code has it.  \<open>run_forecast\<close> reports the enterprise value less net
  debt as equity value; the configuration has no non-operating assets.  \<open>compute_epv\<close>
  reports the value of operations plus excess cash (the cash of \<open>fin\<close> times the
  excess-cash share of the inputs) plus non-operating assets (the latest long-term
  investments plus the capitalised R&D and SG&A) less the debt of \<open>fin\<close> plus the other
  adjustments of the inputs; for finite values that is the value of operations less debt
  net of excess cash, plus non-operating assets, plus the other adjustments.
  \<open>dcf_from_inputs\<close> reports the enterprise value plus all assets of the balance less all
  its liabilities.
\<close>

theorem equity_bridge:
  "(run_forecast cfg = Inr (rows, meta) \<longrightarrow>
      equity_value meta = enterprise_value meta - net_debt cfg) \<and>
   (compute_epv fin inputs = Inr out \<longrightarrow>
      out_debt out = or_zero (fin_total_debt fin) \<and>
      out_cash_adjusted out = or_zero (fin_cash fin) * excess_cash_pct inputs \<and>
      out_other_adjustments out = other_adjustments inputs \<and>
      (\<exists>rd sga. rd_capital_of fin inputs = Inr rd \<and> sga_capital_of fin inputs = Inr sga \<and>
         out_non_operating_assets out = dadd (lti_latest (fin_balance fin)) (dadd rd sga)) \<and>
      out_equity_value out =
        dadd (dsub (dadd (dadd (out_value_operations out) (Num (out_cash_adjusted out)))
                      (out_non_operating_assets out)) (Num (out_debt out)))
          (Num (out_other_adjustments out)) \<and>
      (out_value_operations out = Num v \<and> out_non_operating_assets out = Num a \<longrightarrow>
         out_equity_value out =
           Num (v - (out_debt out - out_cash_adjusted out) + a + out_other_adjustments out))) \<and>
   (dcf_from_inputs proj_rev records balance asm horizon base_margin margin_trend_to = Inr res \<longrightarrow>
      dcf_equity_value res =
        dcf_enterprise_value res +
        (assets_cash_ar balance + assets_ppe_net balance + other_assets balance) -
        (liabilities_ap balance + liabilities_debt balance + other_liabilities balance))"
proof (intro conjI)
  show "run_forecast cfg = Inr (rows, meta) \<longrightarrow>
      equity_value meta = enterprise_value meta - net_debt cfg"
    using run_forecast_Inr(7)[of cfg rows meta] by blast
  show "compute_epv fin inputs = Inr out \<longrightarrow>
      out_debt out = or_zero (fin_total_debt fin) \<and>
      out_cash_adjusted out = or_zero (fin_cash fin) * excess_cash_pct inputs \<and>
      out_other_adjustments out = other_adjustments inputs \<and>
      (\<exists>rd sga. rd_capital_of fin inputs = Inr rd \<and> sga_capital_of fin inputs = Inr sga \<and>
         out_non_operating_assets out = dadd (lti_latest (fin_balance fin)) (dadd rd sga)) \<and>
      out_equity_value out =
        dadd (dsub (dadd (dadd (out_value_operations out) (Num (out_cash_adjusted out)))
                      (out_non_operating_assets out)) (Num (out_debt out)))
          (Num (out_other_adjustments out)) \<and>
      (out_value_operations out = Num v \<and> out_non_operating_assets out = Num a \<longrightarrow>
         out_equity_value out =
           Num (v - (out_debt out - out_cash_adjusted out) + a + out_other_adjustments out))"
    using compute_epv_fields(3,4,5,6,7)[of fin inputs out] epv_equity_finite[of out v a]
    by blast
  show "dcf_from_inputs proj_rev records balance asm horizon base_margin margin_trend_to = Inr res \<longrightarrow>
      dcf_equity_value res =
        dcf_enterprise_value res +
        (assets_cash_ar balance + assets_ppe_net balance + other_assets balance) -
        (liabilities_ap balance + liabilities_debt balance + other_liabilities balance)"
    using dcf_from_inputs_Inr(2)[of proj_rev records balance asm horizon base_margin margin_trend_to res]
    by (auto simp: to_equity_def Let_def)
qed

theorem equity_bridge_witness:
  "run_forecast example_config = Inr (example_rows, example_meta) \<and>
   equity_value example_meta = enterprise_value example_meta - net_debt example_config \<and>
   compute_epv levered_fin example_inputs = Inr levered_outputs \<and>
   out_debt levered_outputs = 100 \<and> out_cash_adjusted levered_outputs = 40 * 1 \<and>
   out_value_operations levered_outputs = Num 800 \<and>
   out_non_operating_assets levered_outputs = Num 25 \<and>
   out_equity_value levered_outputs = Num (800 - (100 - 40 * 1) + 25 + 0) \<and>
   dcf_from_inputs example_projection example_records example_balance example_assumptions 3
     None None = Inr example_dcf \<and>
   dcf_equity_value example_dcf = dcf_enterprise_value example_dcf + 50 - 20"
proof -
  have b: "assets_cash_ar example_balance + assets_ppe_net example_balance +
           other_assets example_balance = 50"
          "liabilities_ap example_balance + liabilities_debt example_balance +
           other_liabilities example_balance = 20"
    by (simp_all add: example_balance_def)
  have f: "or_zero (fin_total_debt levered_fin) = 100" "or_zero (fin_cash levered_fin) = 40"
      "excess_cash_pct example_inputs = 1" "other_adjustments example_inputs = 0"
    by (simp_all add: levered_fin_def example_fin_def example_inputs_def or_zero_def)
  have o: "out_value_operations levered_outputs = Num 800"
      "out_non_operating_assets levered_outputs = Num 25"
    by (simp_all add: levered_outputs_def example_outputs_def)
  note t = equity_bridge[of example_config example_rows example_meta levered_fin example_inputs
      levered_outputs 800 25 example_projection example_records example_balance
      example_assumptions 3 None None example_dcf]
  from t run_forecast_example
  have 1: "equity_value example_meta = enterprise_value example_meta - net_debt example_config"
    by blast
  from t compute_epv_levered o
  have 2: "out_debt levered_outputs = or_zero (fin_total_debt levered_fin) \<and>
      out_cash_adjusted levered_outputs = or_zero (fin_cash levered_fin) * excess_cash_pct example_inputs \<and>
      out_other_adjustments levered_outputs = other_adjustments example_inputs \<and>
      out_equity_value levered_outputs =
        Num (800 - (out_debt levered_outputs - out_cash_adjusted levered_outputs) + 25 +
             out_other_adjustments levered_outputs)"
    by blast
  from 2 have 3: "out_debt levered_outputs = 100 \<and> out_cash_adjusted levered_outputs = 40 * 1 \<and>
      out_equity_value levered_outputs = Num (800 - (100 - 40 * 1) + 25 + 0)"
    unfolding f by simp
  from t dcf_from_inputs_example
  have 4: "dcf_equity_value example_dcf =
        dcf_enterprise_value example_dcf +
        (assets_cash_ar example_balance + assets_ppe_net example_balance +
         other_assets example_balance) -
        (liabilities_ap example_balance + liabilities_debt example_balance +
         other_liabilities example_balance)"
    by blast
  from 4 have 5: "dcf_equity_value example_dcf = dcf_enterprise_value example_dcf + 50 - 20"
    unfolding b .
  from 1 3 5 o run_forecast_example compute_epv_levered dcf_from_inputs_example
  show ?thesis by blast
qed

text \<open>
  The statement of claim C5 fails on \<open>compute_epv\<close>: for \<open>levered_fin\<close> with other
  adjustments of 50, the value of operations is 800, the debt 100, the excess cash 40 and
  the non-operating assets 25, and the equity value is 815, not 800 - (100 - 40) + 25 = 765.
\<close>

theorem equity_bridge_other_adjustments:
  "map_sum id (\<lambda>out. (out_equity_value out, out_value_operations out, out_debt out,
       out_cash_adjusted out, out_non_operating_assets out))
     (compute_epv levered_fin (example_inputs\<lparr>other_adjustments := 50\<rparr>)) =
   Inr (Num 815, Num 800, 100, 40, Num 25) \<and>
   (815 :: real) \<noteq> 800 - (100 - 40) + 25"
proof -
  have "map_sum id (\<lambda>out. (out_equity_value out, out_value_operations out, out_debt out,
       out_cash_adjusted out, out_non_operating_assets out))
     (compute_epv levered_fin (example_inputs\<lparr>other_adjustments := 50\<rparr>)) =
   Inr (Num 815, Num 800, 100, 40, Num 25)"
    by code_simp
  then show ?thesis by simp
qed

subsection \<open>Working capital\<close>










subsection \<open>The discount rate\<close>

lemma wacc_settings_update_select:
  "provider_types (cfg\<lparr>wacc_settings := ws\<rparr>) = provider_types cfg"
  "procedure_categories (cfg\<lparr>wacc_settings := ws\<rparr>) = procedure_categories cfg"
  "membership (cfg\<lparr>wacc_settings := ws\<rparr>) = membership cfg"
  "working_capital (cfg\<lparr>wacc_settings := ws\<rparr>) = working_capital cfg"
  "retail (cfg\<lparr>wacc_settings := ws\<rparr>) = retail cfg"
  "fixed_opex (cfg\<lparr>wacc_settings := ws\<rparr>) = fixed_opex cfg"
  "variable_opex (cfg\<lparr>wacc_settings := ws\<rparr>) = variable_opex cfg"
  "maintenance_capex_pct_of_revenue (cfg\<lparr>wacc_settings := ws\<rparr>) =
     maintenance_capex_pct_of_revenue cfg"
  "corporate_tax_rate (cfg\<lparr>wacc_settings := ws\<rparr>) = corporate_tax_rate cfg"
  by simp_all

lemma forecast_year_wacc_settings:
  "forecast_year (cfg\<lparr>wacc_settings := ws\<rparr>) clinics dep cpx mnt members idx y prev =
   forecast_year cfg clinics dep cpx mnt members idx y prev"
  unfolding forecast_year_def wacc_settings_update_select ..

lemma forecast_loop_wacc_settings:
  "forecast_loop (cfg\<lparr>wacc_settings := ws\<rparr>) clinics dep cpx mnt members idx ys prev =
   forecast_loop cfg clinics dep cpx mnt members idx ys prev"
  by (induction ys arbitrary: idx prev) (simp_all add: forecast_year_wacc_settings)

lemma clinics_by_year_wacc_settings:
  "clinics_by_year (cfg\<lparr>wacc_settings := ws\<rparr>) = clinics_by_year cfg"
  by (simp add: clinics_by_year_def Let_def cong: if_cong)

lemma equipment_schedules_wacc_settings:
  "equipment_schedules (cfg\<lparr>wacc_settings := ws\<rparr>) = equipment_schedules cfg"
  by (simp add: equipment_schedules_def n_years_def)

lemma members_by_year_wacc_settings:
  "members_by_year (cfg\<lparr>wacc_settings := ws\<rparr>) = members_by_year cfg"
  by (simp add: members_by_year_def)

lemma forecast_rows_wacc_settings:
  "forecast_rows (cfg\<lparr>wacc_settings := ws\<rparr>) = forecast_rows cfg"
  unfolding forecast_rows_def clinics_by_year_wacc_settings equipment_schedules_wacc_settings
    members_by_year_wacc_settings forecast_loop_wacc_settings
  by simp

lemma discounted_sum_mono:
  fixes cs ds es :: "real list"
  assumes "list_all2 (\<le>) ds es" and "\<forall>c\<in>set cs. 0 \<le> c"
  shows "sum_list (map (\<lambda>(c, d). c * d) (zip cs ds)) \<le> sum_list (map (\<lambda>(c, e). c * e) (zip cs es))"
  using assms
proof (induction ds es arbitrary: cs rule: list_all2_induct)
  case Nil
  then show ?case by simp
next
  case (Cons d ds e es)
  show ?case
  proof (cases cs)
    case Nil
    then show ?thesis by simp
  next
    case (Cons c cs')
    with Cons.prems have c: "0 \<le> c" and cs': "\<forall>c\<in>set cs'. 0 \<le> c" by simp_all
    have "c * d \<le> c * e" using c Cons.hyps(1) by (rule mult_left_mono[rotated])
    moreover note Cons.IH[OF cs']
    ultimately show ?thesis using \<open>cs = c # cs'\<close> by simp
  qed
qed

lemma discount_factor_mono:
  fixes w1 w2 :: real
  assumes "- 1 < w1" and "w1 \<le> w2"
  shows "1 / (1 + w2) ^ i \<le> 1 / (1 + w1) ^ i"
proof -
  have "0 < 1 + w1" using assms by simp
  then have p: "0 < (1 + w1) ^ i" by simp
  have "(1 + w1) ^ i \<le> (1 + w2) ^ i" using assms by (intro power_mono) simp_all
  with p show ?thesis by (simp add: frac_le)
qed

lemma discount_factors_mono:
  fixes w1 w2 :: real
  assumes "- 1 < w1" and "w1 \<le> w2"
  shows "list_all2 (\<le>) (map (\<lambda>i. 1 / (1 + w2) ^ i) xs) (map (\<lambda>i. 1 / (1 + w1) ^ i) xs)"
  using discount_factor_mono[OF assms]
  by (simp add: list_all2_conv_all_nth)

lemma present_value_of_flows_mono:
  assumes "- 1 < w1" and "w1 \<le> w2" and "\<forall>row\<in>set rows. 0 \<le> r_ufcf row"
  shows "present_value_of_flows w2 rows \<le> present_value_of_flows w1 rows"
  unfolding present_value_of_flows_def
  by (rule discounted_sum_mono[OF discount_factors_mono[OF assms(1,2)]]) (use assms(3) in auto)

lemma discounted_terminal_strict:
  fixes w1 w2 t1 t2 :: real
  assumes "- 1 < w1" and "w1 < w2" and "0 < n" and "0 < t2" and "t2 \<le> t1"
  shows "t2 / (1 + w2) ^ n < t1 / (1 + w1) ^ n"
proof -
  have p1: "0 < (1 + w1) ^ n" using assms(1) by simp
  have lt: "(1 + w1) ^ n < (1 + w2) ^ n"
    using assms(1,2,3) by (intro power_strict_mono) simp_all
  have "t2 / (1 + w2) ^ n < t2 / (1 + w1) ^ n"
    using lt p1 assms(4) by (intro divide_strict_left_mono) simp_all
  also have "\<dots> \<le> t1 / (1 + w1) ^ n"
    using assms(5) p1 by (simp add: divide_right_mono)
  finally show ?thesis .
qed

lemma wacc_with_discount_rate: "wacc (with_discount_rate r cfg) = r"
  by (simp add: wacc_def with_discount_rate_def Let_def)

text \<open>
  Claim C3, as the code has it.  Take two configurations that differ in the WACC settings
  only, with WACCs \<open>-1 < w1 < w2\<close>, at least one forecast year, no negative unlevered
  free cash flow in any forecast year and a positive terminal value (exit method: final
  EBITDA times the multiple is positive; Gordon method: the growth rate is below \<open>w1\<close>
  and the final cash flow times one plus the growth rate is positive).  Then both
  valuations return, on the same rows, and the enterprise value at \<open>w2\<close> is strictly
  below the one at \<open>w1\<close>.
\<close>

theorem enterprise_value_decreasing_in_wacc:
  assumes years: "1 \<le> forecast_years cfg"
    and w1: "- 1 < wacc cfg"
    and w12: "wacc cfg < wacc (cfg\<lparr>wacc_settings := ws\<rparr>)"
    and flows: "\<forall>row\<in>set (forecast_rows cfg). 0 \<le> r_ufcf row"
    and tval: "if terminal_method (terminal cfg) = ''gordon''
               then gordon_growth (terminal cfg) < wacc cfg \<and>
                    0 < r_ufcf (last (forecast_rows cfg)) * (1 + gordon_growth (terminal cfg))
               else 0 < r_ebitda (last (forecast_rows cfg)) * exit_ebitda_multiple (terminal cfg)"
  shows "\<exists>m m'. run_forecast cfg = Inr (forecast_rows cfg, m) \<and>
           run_forecast (cfg\<lparr>wacc_settings := ws\<rparr>) = Inr (forecast_rows cfg, m') \<and>
           enterprise_value m' < enterprise_value m"
proof -
  let ?cfg' = "cfg\<lparr>wacc_settings := ws\<rparr>"
  let ?rows = "forecast_rows cfg"
  let ?w1 = "wacc cfg" and ?w2 = "wacc ?cfg'"
  have rows': "forecast_rows ?cfg' = ?rows" by (rule forecast_rows_wacc_settings)
  have ne: "?rows \<noteq> []" using years by (simp add: forecast_rows_nonempty)
  then have n: "0 < length ?rows" by simp
  have w2: "- 1 < ?w2" using w1 w12 by linarith
  have "\<exists>t1 t2. terminal_value_of cfg ?w1 (last ?rows) = Inr t1 \<and>
          terminal_value_of ?cfg' ?w2 (last ?rows) = Inr t2 \<and> 0 < t2 \<and> t2 \<le> t1"
  proof (cases "terminal_method (terminal cfg) = ''gordon''")
    case True
    let ?g = "gordon_growth (terminal cfg)"
    let ?c = "r_ufcf (last ?rows) * (1 + ?g)"
    from tval True have g: "?g < ?w1" and c: "0 < ?c" by simp_all
    have d1: "0 < ?w1 - ?g" and d12: "?w1 - ?g \<le> ?w2 - ?g" using g w12 by simp_all
    then have d2: "0 < ?w2 - ?g" by linarith
    have "?c / (?w2 - ?g) \<le> ?c / (?w1 - ?g)"
      using c d1 d12 by (intro divide_left_mono) simp_all
    moreover have "0 < ?c / (?w2 - ?g)" using c d2 by simp
    ultimately show ?thesis
      using True d1 d2 by (simp add: terminal_value_of_def)
  next
    case False
    with tval show ?thesis by (simp add: terminal_value_of_def)
  qed
  then obtain t1 t2 where t1: "terminal_value_of cfg ?w1 (last ?rows) = Inr t1"
    and t2: "terminal_value_of ?cfg' ?w2 (last (forecast_rows ?cfg')) = Inr t2"
    and pos: "0 < t2" and le: "t2 \<le> t1"
    unfolding rows' by blast
  have n1: "?w1 \<noteq> - 1" and n2: "?w2 \<noteq> - 1" using w1 w2 by simp_all
  have ne': "forecast_rows ?cfg' \<noteq> []" unfolding rows' by (rule ne)
  note r1 = run_forecast_eq[OF ne n1 t1]
  note r2 = run_forecast_eq[OF ne' n2 t2, unfolded rows']
  have pv: "present_value_of_flows ?w2 ?rows \<le> present_value_of_flows ?w1 ?rows"
    using w1 w12 flows by (intro present_value_of_flows_mono) simp_all
  have tv: "t2 / (1 + ?w2) ^ length ?rows < t1 / (1 + ?w1) ^ length ?rows"
    using w1 w12 n pos le by (rule discounted_terminal_strict)
  show ?thesis
    apply (intro exI conjI)
      apply (rule r1)
     apply (rule r2)
    using pv tv apply simp
    done
qed

theorem enterprise_value_decreasing_in_wacc_witness:
  "wacc example_config = 0.1 \<and>
   wacc (example_config\<lparr>wacc_settings :=
           (wacc_settings example_config)\<lparr>risk_free_rate := 0.19\<rparr>\<rparr>) = 0.25 \<and>
   (\<exists>m m'. run_forecast example_config = Inr (forecast_rows example_config, m) \<and>
        run_forecast (example_config\<lparr>wacc_settings :=
           (wacc_settings example_config)\<lparr>risk_free_rate := 0.19\<rparr>\<rparr>) =
          Inr (forecast_rows example_config, m') \<and>
        enterprise_value m' < enterprise_value m)"
proof -
  let ?ws = "(wacc_settings example_config)\<lparr>risk_free_rate := 0.19\<rparr>"
  have w1: "wacc example_config = 0.1" by (simp add: wacc_example)
  have w2: "wacc (example_config\<lparr>wacc_settings := ?ws\<rparr>) = 0.25"
    by (simp add: wacc_def example_config_def Let_def)
  have a: "1 \<le> forecast_years example_config" by (simp add: example_config_def)
  have b: "- 1 < wacc example_config" by (simp add: w1)
  have c: "wacc example_config < wacc (example_config\<lparr>wacc_settings := ?ws\<rparr>)"
    unfolding w1 w2 by simp
  have d: "\<forall>row\<in>set (forecast_rows example_config). 0 \<le> r_ufcf row"
    by (simp add: forecast_rows_example example_rows_def)
  have e: "if terminal_method (terminal example_config) = ''gordon''
           then gordon_growth (terminal example_config) < wacc example_config \<and>
                0 < r_ufcf (last (forecast_rows example_config)) *
                      (1 + gordon_growth (terminal example_config))
           else 0 < r_ebitda (last (forecast_rows example_config)) *
                      exit_ebitda_multiple (terminal example_config)"
    by (simp add: forecast_rows_example example_rows_def) (simp add: example_config_def)
  from enterprise_value_decreasing_in_wacc[OF a b c d e] w1 w2 show ?thesis by blast
qed

text \<open>
  The statement of claim C3 fails when cash flows are negative: \<open>loss_config\<close> valued
  at 5% has an enterprise value of about -4298, and valued at 25%, all else fixed, one of
  about -3087, which is larger.
\<close>

theorem enterprise_value_rises_for_losses:
  "wacc (with_discount_rate 0.05 loss_config) = 0.05 \<and>
   wacc (with_discount_rate 0.25 loss_config) = 0.25 \<and>
   map_sum id (enterprise_value \<circ> snd) (run_forecast (with_discount_rate 0.05 loss_config)) =
     Inr (- (270800 / 63)) \<and>
   map_sum id (enterprise_value \<circ> snd) (run_forecast (with_discount_rate 0.25 loss_config)) =
     Inr (- (77168 / 25)) \<and>
   (- (270800 / 63) :: real) < - (77168 / 25)"
proof -
  have "map_sum id (enterprise_value \<circ> snd) (run_forecast (with_discount_rate 0.05 loss_config)) =
     Inr (- (270800 / 63))"
    by code_simp
  moreover have "map_sum id (enterprise_value \<circ> snd) (run_forecast (with_discount_rate 0.25 loss_config)) =
     Inr (- (77168 / 25))"
    by code_simp
  ultimately show ?thesis by (simp add: wacc_with_discount_rate)
qed

subsection \<open>The terminal value under the Gordon method\<close>







subsection \<open>The tornado frame\<close>



















subsection \<open>Monte Carlo\<close>

lemma mc_draw_wacc_fresh:
  "\<exists>g1. mc_draw_wacc normal base (fresh_cdict base) g =
          Inr (\<lparr> cd_config = base, cd_loaded = True \<rparr>, g1)"
  by (simp add: mc_draw_wacc_def and_then_def set_wacc_def load_config_obj_def
        fresh_cdict_def Let_def split: prod.splits)

lemma mc_draw_exit_loaded:
  "mc_draw_exit normal \<lparr> cd_config = base, cd_loaded = True \<rparr> g1 = Inl TypeError"
  by (simp add: mc_draw_exit_def and_then_def cdict_terminal_def)

text \<open>
  What the command \<open>mc\<close> does in every iteration: \<open>_set_wacc\<close> leaves objects in the
  dictionary, and the next statement of the loop, which subscripts \<open>c["terminal"]\<close>,
  raises.
\<close>

lemma mc_iteration_raises: "mc_iteration normal base g = Inl TypeError"
proof -
  obtain g1 where 1: "mc_draw_wacc normal base (fresh_cdict base) g =
             Inr (\<lparr> cd_config = base, cd_loaded = True \<rparr>, g1)"
    using mc_draw_wacc_fresh[of normal base g] by blast
  show ?thesis by (simp add: mc_iteration_def and_then_def 1 mc_draw_exit_loaded)
qed

lemma mc_loop_raises: "mc_loop normal base (Suc k) g = Inl TypeError"
  by (simp add: mc_iteration_raises)

lemma monte_carlo_raises:
  assumes "run_forecast base = Inr res" and "0 \<le> sd" and "sd < 2 ^ 32" and "1 \<le> iterations"
  shows "monte_carlo np_seed normal ambient base iterations (Some sd) = Inl TypeError"
proof -
  obtain k where k: "nat iterations = Suc k" using assms(4) by (cases "nat iterations") auto
  show ?thesis
    using assms(1,2,3) by (cases res) (simp add: monte_carlo_def k mc_iteration_raises)
qed

lemma monte_carlo_no_samples:
  assumes "1 \<le> iterations"
  shows "\<exists>e. monte_carlo np_seed normal ambient base iterations seed = Inl e"
proof -
  obtain k where k: "nat iterations = Suc k" using assms by (cases "nat iterations") auto
  show ?thesis
    unfolding monte_carlo_def k mc_loop_raises
    by (auto split: option.splits sum.splits prod.splits)
qed

text \<open>
  Claim C7.  Two runs of the command \<open>mc\<close> cannot be compared sample by sample, because
  the command produces no samples: for an iteration count of at least one it ends with an
  exception whatever the seed, the configuration and the state of the generator are, and
  when the base case can be valued that exception is the \<open>TypeError\<close> of the first
  iteration, with a valid seed or with none.
\<close>

theorem monte_carlo_raises_type_error:
  "(1 \<le> iterations \<longrightarrow>
      (\<exists>e. monte_carlo np_seed normal ambient base iterations seed = Inl e)) \<and>
   (1 \<le> iterations \<and> 0 \<le> sd \<and> sd < 2 ^ 32 \<and> run_forecast base = Inr res \<longrightarrow>
      monte_carlo np_seed normal ambient base iterations (Some sd) = Inl TypeError) \<and>
   (1 \<le> iterations \<and> run_forecast base = Inr res \<longrightarrow>
      monte_carlo np_seed normal ambient base iterations None = Inl TypeError)"
proof (intro conjI impI)
  assume "1 \<le> iterations"
  then show "\<exists>e. monte_carlo np_seed normal ambient base iterations seed = Inl e"
    by (rule monte_carlo_no_samples)
next
  assume a: "1 \<le> iterations \<and> 0 \<le> sd \<and> sd < 2 ^ 32 \<and> run_forecast base = Inr res"
  then show "monte_carlo np_seed normal ambient base iterations (Some sd) = Inl TypeError"
    using monte_carlo_raises[of base res sd iterations np_seed normal ambient] by blast
next
  assume a: "1 \<le> iterations \<and> run_forecast base = Inr res"
  then obtain k where k: "nat iterations = Suc k" by (cases "nat iterations") auto
  from a show "monte_carlo np_seed normal ambient base iterations None = Inl TypeError"
    by (cases res) (simp add: monte_carlo_def k mc_iteration_raises)
qed

theorem monte_carlo_raises_type_error_witness:
  "run_forecast example_config = Inr (example_rows, example_meta) \<and>
   monte_carlo (\<lambda>sd. nat sd) counting_normal 0 example_config 2000 (Some 42) = Inl TypeError \<and>
   monte_carlo (\<lambda>sd. nat sd) counting_normal 0 example_config 1 None = Inl TypeError"
proof -
  note t1 = monte_carlo_raises_type_error[of 2000 "\<lambda>sd. nat sd" counting_normal 0
      example_config "Some 42" 42 "(example_rows, example_meta)"]
  note t2 = monte_carlo_raises_type_error[of 1 "\<lambda>sd. nat sd" counting_normal 0
      example_config None 42 "(example_rows, example_meta)"]
  have n: "(1::int) \<le> 2000" "(1::int) \<le> 1" "(0::int) \<le> 42" "(42::int) < 2 ^ 32" by simp_all
  from t1 n run_forecast_example
  have 1: "monte_carlo (\<lambda>sd. nat sd) counting_normal 0 example_config 2000 (Some 42) =
             Inl TypeError"
    by blast
  from t2 n run_forecast_example
  have 2: "monte_carlo (\<lambda>sd. nat sd) counting_normal 0 example_config 1 None = Inl TypeError"
    by blast
  from 1 2 run_forecast_example show ?thesis by blast
qed

text \<open>
  The Monte Carlo of the EPV application takes no seed: it creates its own generator
  from the constant 42 and returns the sampled values per share.  With the stand-in
  generator, two samples of the example:
\<close>

lemma monte_carlo_epv_example:
  "monte_carlo_epv (\<lambda>sd. nat sd) counting_normal example_inputs example_fin 2 example_dists =
     Inr [Num 1136, Num 1144]"
  by code_simp

end
